theory Spec2Isabelle
  imports Complex_Main
begin

section \<open>JavaScript numbers and faults\<close>

text \<open>
  The analysers are JavaScript classes working on arrays of candles. Every numeric field
  is a JavaScript number. The model keeps the special values of the number type
  (\<open>NaN\<close>, \<open>Infinity\<close>, \<open>-Infinity\<close>), because the code divides by quantities that can
  be zero and compares the outcome; finite values are exact reals, so rounding error of
  the binary representation and the sign of zero are outside the model.
\<close>

datatype jsnum = Fin real | PInf | NInf | NaN

fun inf_of_sign :: "real \<Rightarrow> jsnum" where
  "inf_of_sign s = (if 0 < s then PInf else if s < 0 then NInf else NaN)"

fun jsign :: "jsnum \<Rightarrow> real" where
  "jsign (Fin a) = sgn a"
| "jsign PInf = 1"
| "jsign NInf = - 1"
| "jsign NaN = 0"

fun jneg :: "jsnum \<Rightarrow> jsnum" where
  "jneg (Fin a) = Fin (- a)"
| "jneg PInf = NInf"
| "jneg NInf = PInf"
| "jneg NaN = NaN"

fun jadd :: "jsnum \<Rightarrow> jsnum \<Rightarrow> jsnum" where
  "jadd (Fin a) (Fin b) = Fin (a + b)"
| "jadd NaN y = NaN"
| "jadd x NaN = NaN"
| "jadd PInf NInf = NaN"
| "jadd NInf PInf = NaN"
| "jadd PInf y = PInf"
| "jadd NInf y = NInf"
| "jadd (Fin a) PInf = PInf"
| "jadd (Fin a) NInf = NInf"

definition jsub :: "jsnum \<Rightarrow> jsnum \<Rightarrow> jsnum" where
  "jsub x y = jadd x (jneg y)"

fun jmul :: "jsnum \<Rightarrow> jsnum \<Rightarrow> jsnum" where
  "jmul (Fin a) (Fin b) = Fin (a * b)"
| "jmul NaN y = NaN"
| "jmul x NaN = NaN"
| "jmul x y = inf_of_sign (jsign x * jsign y)"

fun jdiv :: "jsnum \<Rightarrow> jsnum \<Rightarrow> jsnum" where
  "jdiv (Fin a) (Fin b) = (if b = 0 then inf_of_sign (sgn a) else Fin (a / b))"
| "jdiv NaN y = NaN"
| "jdiv x NaN = NaN"
| "jdiv (Fin a) y = Fin 0"
| "jdiv x (Fin b) = (if b = 0 then x else inf_of_sign (jsign x * sgn b))"
| "jdiv x y = NaN"

fun jabs :: "jsnum \<Rightarrow> jsnum" where
  "jabs (Fin a) = Fin \<bar>a\<bar>"
| "jabs PInf = PInf"
| "jabs NInf = PInf"
| "jabs NaN = NaN"

text \<open>\<open>Math.floor\<close> and \<open>Math.round\<close> (which rounds a half towards \<open>+Infinity\<close>).\<close>

fun jfloor :: "jsnum \<Rightarrow> jsnum" where
  "jfloor (Fin a) = Fin (of_int \<lfloor>a\<rfloor>)"
| "jfloor x = x"

fun jround :: "jsnum \<Rightarrow> jsnum" where
  "jround (Fin a) = Fin (of_int \<lfloor>a + 1 / 2\<rfloor>)"
| "jround x = x"

text \<open>The comparison operators: every comparison with \<open>NaN\<close> is false.\<close>

fun jlt :: "jsnum \<Rightarrow> jsnum \<Rightarrow> bool" where
  "jlt (Fin a) (Fin b) = (a < b)"
| "jlt NInf (Fin b) = True"
| "jlt NInf PInf = True"
| "jlt (Fin a) PInf = True"
| "jlt x y = False"

fun jeq :: "jsnum \<Rightarrow> jsnum \<Rightarrow> bool" where
  "jeq (Fin a) (Fin b) = (a = b)"
| "jeq PInf PInf = True"
| "jeq NInf NInf = True"
| "jeq x y = False"

definition jle :: "jsnum \<Rightarrow> jsnum \<Rightarrow> bool" where
  "jle x y = (jlt x y \<or> jeq x y)"

definition jgt :: "jsnum \<Rightarrow> jsnum \<Rightarrow> bool" where
  "jgt x y = jlt y x"

definition jge :: "jsnum \<Rightarrow> jsnum \<Rightarrow> bool" where
  "jge x y = jle y x"

text \<open>Truthiness of a number in a condition: \<open>0\<close> and \<open>NaN\<close> are falsy.\<close>

fun truthy :: "jsnum \<Rightarrow> bool" where
  "truthy (Fin a) = (a \<noteq> 0)"
| "truthy NaN = False"
| "truthy x = True"

text \<open>\<open>Math.min(a, b)\<close>, \<open>Math.max(a, b)\<close> and their spread forms over an array.\<close>

fun jmin2 :: "jsnum \<Rightarrow> jsnum \<Rightarrow> jsnum" where
  "jmin2 NaN y = NaN"
| "jmin2 x NaN = NaN"
| "jmin2 x y = (if jlt y x then y else x)"

fun jmax2 :: "jsnum \<Rightarrow> jsnum \<Rightarrow> jsnum" where
  "jmax2 NaN y = NaN"
| "jmax2 x NaN = NaN"
| "jmax2 x y = (if jlt x y then y else x)"

definition Math_min :: "jsnum list \<Rightarrow> jsnum" where
  "Math_min xs = foldl jmin2 PInf xs"

definition Math_max :: "jsnum list \<Rightarrow> jsnum" where
  "Math_max xs = foldl jmax2 NInf xs"

text \<open>\<open>xs.reduce((sum, x) => sum + x, 0)\<close> and the length of an array as a number.\<close>

definition jsum :: "jsnum list \<Rightarrow> jsnum" where
  "jsum xs = foldl jadd (Fin 0) xs"

definition jlen :: "'a list \<Rightarrow> jsnum" where
  "jlen xs = Fin (real (length xs))"

text \<open>
  \<open>Array.prototype.sort\<close> with a comparator returning a number: a stable sort that
  places \<open>x\<close> before \<open>y\<close> exactly when the comparator is negative on \<open>(x, y)\<close>. A \<open>NaN\<close>
  comparator result counts as equal.
\<close>

fun insert_by :: "('a \<Rightarrow> 'a \<Rightarrow> jsnum) \<Rightarrow> 'a \<Rightarrow> 'a list \<Rightarrow> 'a list" where
  "insert_by cmp x [] = [x]"
| "insert_by cmp x (y # ys) =
     (if jlt (cmp x y) (Fin 0) then x # y # ys else y # insert_by cmp x ys)"

definition sort_by :: "('a \<Rightarrow> 'a \<Rightarrow> jsnum) \<Rightarrow> 'a list \<Rightarrow> 'a list" where
  "sort_by cmp xs = foldl (\<lambda>acc x. insert_by cmp x acc) [] xs"

text \<open>
  A call either returns a value or does not. Reading a property of \<open>undefined\<close> throws a
  \<open>TypeError\<close>; a loop that never leaves is \<open>NoReturn\<close>.
\<close>

datatype fault = TypeError | NoReturn

type_synonym 'a result = "fault + 'a"

definition bind_result :: "'a result \<Rightarrow> ('a \<Rightarrow> 'b result) \<Rightarrow> 'b result" where
  "bind_result r f = (case r of Inl e \<Rightarrow> Inl e | Inr x \<Rightarrow> f x)"

fun map_result :: "('a \<Rightarrow> 'b result) \<Rightarrow> 'a list \<Rightarrow> 'b list result" where
  "map_result f [] = Inr []"
| "map_result f (x # xs) =
     bind_result (f x) (\<lambda>y. bind_result (map_result f xs) (\<lambda>ys. Inr (y # ys)))"

section \<open>Candles\<close>

text \<open>
  A field of a record is a constant of the theory, so the fields that several objects
  share (\<open>price\<close>, \<open>time\<close>, \<open>volume\<close>, \<open>type\<close>, \<open>index\<close>, \<open>high\<close>, \<open>low\<close>,
  \<open>strength\<close>, \<open>confidence\<close>, \<open>direction\<close>) carry a prefix for their record:
  \<open>c_close\<close> is the \<open>close\<close> of a candle, \<open>pv_price\<close> the \<open>price\<close> of a pivot.
\<close>

record candle =
  c_time :: jsnum
  c_open :: jsnum
  c_high :: jsnum
  c_low :: jsnum
  c_close :: jsnum
  c_volume :: jsnum

text \<open>
  \<open>data[data.length - 1]\<close> is \<open>undefined\<close> on the empty array, and reading \<open>.close\<close> from
  it throws.
\<close>

definition last_candle :: "candle list \<Rightarrow> candle result" where
  "last_candle data = (if data = [] then Inl TypeError else Inr (last data))"

definition last_close :: "candle list \<Rightarrow> jsnum result" where
  "last_close data = bind_result (last_candle data) (\<lambda>c. Inr (c_close c))"

text \<open>\<open>data.slice(i - lookback, i + lookback + 1)\<close> for \<open>i \<ge> lookback\<close>.\<close>

definition window :: "candle list \<Rightarrow> nat \<Rightarrow> nat \<Rightarrow> candle list" where
  "window data i lookback = take (2 * lookback + 1) (drop (i - lookback) data)"

text \<open>\<open>data.slice(-k)\<close> for an integer \<open>k\<close>: the whole array when \<open>k = 0\<close>.\<close>

definition slice_last :: "nat \<Rightarrow> 'a list \<Rightarrow> 'a list" where
  "slice_last k xs = (if k = 0 then xs else drop (length xs - k) xs)"

section \<open>Support/Resistance analyser\<close>

text \<open>The constants set by the constructor of \<open>SupportResistanceAnalyzer\<close>.\<close>

definition minTouchCount :: nat where
  "minTouchCount = 2"

definition priceTolerancePercent :: jsnum where
  "priceTolerancePercent = Fin (5 / 10)"

definition volumeWeightFactor :: jsnum where
  "volumeWeightFactor = Fin (3 / 10)"

record pivot =
  pv_index :: nat
  pv_price :: jsnum
  pv_time :: jsnum
  pv_volume :: jsnum

record pivot_points =
  highs :: "pivot list"
  lows :: "pivot list"

subsection \<open>findPivotPoints\<close>

text \<open>
  The loop \<open>for (i = lookback; i < data.length - lookback; i++)\<close> visits the indices
  \<open>[lookback ..< length data - lookback]\<close>; the bound is negative in the source when the
  array is shorter than \<open>lookback\<close>, and the range is empty then as well.
\<close>

definition isPivotHigh :: "candle list \<Rightarrow> nat \<Rightarrow> nat \<Rightarrow> bool" where
  "isPivotHigh data i lookback =
     (let segment = window data i lookback; current = segment ! lookback
      in list_all (\<lambda>(idx, c). idx = lookback \<or> jle (c_high c) (c_high current))
           (enumerate 0 segment))"

definition isPivotLow :: "candle list \<Rightarrow> nat \<Rightarrow> nat \<Rightarrow> bool" where
  "isPivotLow data i lookback =
     (let segment = window data i lookback; current = segment ! lookback
      in list_all (\<lambda>(idx, c). idx = lookback \<or> jge (c_low c) (c_low current))
           (enumerate 0 segment))"

definition findPivotPoints :: "candle list \<Rightarrow> pivot_points" where
  "findPivotPoints data =
     (let lookback = 5;
          current = (\<lambda>i. window data i lookback ! lookback);
          range = [lookback ..< length data - lookback]
      in \<lparr> highs = map (\<lambda>i. \<lparr> pv_index = i, pv_price = c_high (current i),
                                pv_time = c_time (current i), pv_volume = c_volume (current i) \<rparr>)
                     (filter (\<lambda>i. isPivotHigh data i lookback) range),
           lows = map (\<lambda>i. \<lparr> pv_index = i, pv_price = c_low (current i),
                               pv_time = c_time (current i), pv_volume = c_volume (current i) \<rparr>)
                    (filter (\<lambda>i. isPivotLow data i lookback) range) \<rparr>)"

subsection \<open>clusterPivotPoints\<close>

record cluster =
  avgPrice :: jsnum
  points :: "pivot list"

text \<open>
  The inner loop over the existing clusters, in creation order: the pivot joins the first
  cluster whose current mean is within the tolerance, and the mean of that cluster is
  recomputed over all its points. \<open>None\<close> is \<open>addedToCluster = false\<close>.
\<close>

fun addToCluster :: "jsnum \<Rightarrow> pivot \<Rightarrow> cluster list \<Rightarrow> cluster list option" where
  "addToCluster tolerance pivot [] = None"
| "addToCluster tolerance pivot (c # cs) =
     (let priceDiff = jdiv (jabs (jsub (pv_price pivot) (avgPrice c))) (avgPrice c)
      in if jle priceDiff tolerance
         then (let pts = points c @ [pivot]
               in Some (\<lparr> avgPrice = jdiv (jsum (map pv_price pts)) (jlen pts), points = pts \<rparr> # cs))
         else map_option ((#) c) (addToCluster tolerance pivot cs))"

text \<open>The body of the outer loop: join the first fitting cluster, or open a new one.\<close>

definition clusterStep :: "jsnum \<Rightarrow> cluster list \<Rightarrow> pivot \<Rightarrow> cluster list" where
  "clusterStep tolerance clusters pivot =
     (case addToCluster tolerance pivot clusters of
        Some clusters' \<Rightarrow> clusters'
      | None \<Rightarrow> clusters @ [\<lparr> avgPrice = pv_price pivot, points = [pivot] \<rparr>])"

definition clusterPivotPoints :: "pivot list \<Rightarrow> cluster list" where
  "clusterPivotPoints pivots =
     (let tolerance = jdiv priceTolerancePercent (Fin 100)
      in foldl (clusterStep tolerance) [] pivots)"

subsection \<open>Levels\<close>

datatype level_type = Support | Resistance | Psychological | Volume

text \<open>
  A level object. Psychological levels carry no \<open>firstTouch\<close>, \<open>lastTouch\<close> or
  \<open>volume\<close> property and volume levels no \<open>firstTouch\<close> or \<open>lastTouch\<close>: an absent
  property is \<open>None\<close>.
\<close>

record level =
  lv_price :: jsnum
  touches :: nat
  strength :: jsnum
  firstTouch :: "jsnum option"
  lastTouch :: "jsnum option"
  lv_volume :: "jsnum option"
  lv_type :: level_type
  isRecent :: bool
  isRelevant :: bool

text \<open>
  \<open>recentPeriod = Math.min(50, data.length * 0.2)\<close> is passed to \<open>slice\<close>, which
  truncates it to an integer: \<open>min 50 (length data div 5)\<close>.
\<close>

definition isRecentLevel :: "level \<Rightarrow> candle list \<Rightarrow> bool" where
  "isRecentLevel lvl data =
     (let recentPeriod = min 50 (length data div 5);
          recentData = slice_last recentPeriod data;
          tolerance = Fin (1 / 100)
      in list_ex (\<lambda>c. jle (jdiv (jabs (jsub (c_high c) (lv_price lvl))) (lv_price lvl)) tolerance \<or>
                       jle (jdiv (jabs (jsub (c_low c) (lv_price lvl))) (lv_price lvl)) tolerance)
           recentData)"

definition isRelevantLevel :: "level \<Rightarrow> candle list \<Rightarrow> bool result" where
  "isRelevantLevel lvl data =
     bind_result (last_close data) (\<lambda>currentPrice.
       let distanceRatio = jdiv (jabs (jsub (lv_price lvl) currentPrice)) currentPrice
       in Inr (jle distanceRatio (Fin (15 / 100))))"

text \<open>
  The body of the loop over the clusters in \<open>identifySupportLevels\<close> and
  \<open>identifyResistanceLevels\<close>, which differ in the \<open>type\<close> they write. The level is
  built without \<open>isRecent\<close> and \<open>isRelevant\<close>, which are assigned next, in this order;
  until then the model holds \<open>False\<close> for them, and neither test reads them.
\<close>

definition clusterLevel :: "level_type \<Rightarrow> candle list \<Rightarrow> cluster \<Rightarrow> level result" where
  "clusterLevel ty ohlcData cluster =
     (let pts = points cluster;
          lvl = \<lparr> lv_price = avgPrice cluster,
                  touches = length pts,
                  strength = Fin 0,
                  firstTouch = Some (Math_min (map pv_time pts)),
                  lastTouch = Some (Math_max (map pv_time pts)),
                  lv_volume = Some (jdiv (jsum (map pv_volume pts)) (jlen pts)),
                  lv_type = ty,
                  isRecent = False,
                  isRelevant = False \<rparr>;
          lvl1 = lvl\<lparr> isRecent := isRecentLevel lvl ohlcData \<rparr>
      in bind_result (isRelevantLevel lvl1 ohlcData) (\<lambda>relevant.
           Inr (lvl1\<lparr> isRelevant := relevant \<rparr>)))"

definition byStrengthDesc :: "level \<Rightarrow> level \<Rightarrow> jsnum" where
  "byStrengthDesc a b = jsub (strength b) (strength a)"

definition identifySupportLevels :: "pivot list \<Rightarrow> candle list \<Rightarrow> level list result" where
  "identifySupportLevels pivotLows ohlcData =
     (let clusteredLows = clusterPivotPoints pivotLows
      in bind_result
           (map_result (clusterLevel Support ohlcData)
              (filter (\<lambda>cluster. minTouchCount \<le> length (points cluster)) clusteredLows))
           (\<lambda>supportLevels. Inr (sort_by byStrengthDesc supportLevels)))"

definition identifyResistanceLevels :: "pivot list \<Rightarrow> candle list \<Rightarrow> level list result" where
  "identifyResistanceLevels pivotHighs ohlcData =
     (let clusteredHighs = clusterPivotPoints pivotHighs
      in bind_result
           (map_result (clusterLevel Resistance ohlcData)
              (filter (\<lambda>cluster. minTouchCount \<le> length (points cluster)) clusteredHighs))
           (\<lambda>resistanceLevels. Inr (sort_by byStrengthDesc resistanceLevels)))"

subsection \<open>Psychological levels\<close>

definition countTouches :: "jsnum \<Rightarrow> candle list \<Rightarrow> jsnum \<Rightarrow> nat" where
  "countTouches lvl data tolerance =
     length (filter (\<lambda>c.
       let highDiff = jdiv (jabs (jsub (c_high c) lvl)) lvl;
           lowDiff = jdiv (jabs (jsub (c_low c) lvl)) lvl;
           closeDiff = jdiv (jabs (jsub (c_close c) lvl)) lvl
       in jle highDiff tolerance \<or> jle lowDiff tolerance \<or> jle closeDiff tolerance) data)"

text \<open>The step chosen at the head of \<open>generateRoundNumbers\<close>.\<close>

definition stepSize :: "jsnum \<Rightarrow> jsnum" where
  "stepSize maxPrice =
     (if jlt maxPrice (Fin 1) then Fin (1 / 100)
      else if jlt maxPrice (Fin 10) then Fin (1 / 10)
      else if jlt maxPrice (Fin 100) then Fin 1
      else if jlt maxPrice (Fin 1000) then Fin 10
      else Fin 100)"

text \<open>
  The loop \<open>for (price = ...; price <= maxPrice; price += step)\<close>. It does not end when
  \<open>price\<close> is finite and \<open>maxPrice\<close> is \<open>Infinity\<close>, so it is a partial function.
\<close>

partial_function (option) roundLoop :: "jsnum \<Rightarrow> jsnum \<Rightarrow> jsnum \<Rightarrow> jsnum list \<Rightarrow> jsnum list option" where
  "roundLoop price maxPrice step roundNumbers =
     (if jle price maxPrice
      then roundLoop (jadd price step) maxPrice step
             (if jgt price (Fin 0) then roundNumbers @ [price] else roundNumbers)
      else Some roundNumbers)"

declare roundLoop.simps [code]

definition generateRoundNumbers :: "jsnum \<Rightarrow> jsnum \<Rightarrow> jsnum list result" where
  "generateRoundNumbers minPrice maxPrice =
     (let step = stepSize maxPrice
      in case roundLoop (jmul (jfloor (jdiv minPrice step)) step) maxPrice step [] of
           None \<Rightarrow> Inl NoReturn
         | Some roundNumbers \<Rightarrow> Inr roundNumbers)"

text \<open>The 20 percent window around the latest close.\<close>

definition priceWindow :: "jsnum \<Rightarrow> jsnum \<times> jsnum" where
  "priceWindow currentPrice =
     (let priceRange = jmul currentPrice (Fin (2 / 10))
      in (jsub currentPrice priceRange, jadd currentPrice priceRange))"

definition findPsychologicalLevels :: "candle list \<Rightarrow> level list result" where
  "findPsychologicalLevels data =
     bind_result (last_close data) (\<lambda>currentPrice.
       let (minPrice, maxPrice) = priceWindow currentPrice
       in bind_result (generateRoundNumbers minPrice maxPrice) (\<lambda>roundNumbers.
            Inr (map (\<lambda>roundPrice.
                       let touchCount = countTouches roundPrice data (Fin (5 / 1000))
                       in \<lparr> lv_price = roundPrice,
                            touches = touchCount,
                            strength = Fin (real touchCount * 10),
                            firstTouch = None,
                            lastTouch = None,
                            lv_volume = None,
                            lv_type = Psychological,
                            isRecent = True,
                            isRelevant = True \<rparr>)
                   (filter (\<lambda>roundPrice. 2 \<le> countTouches roundPrice data (Fin (5 / 1000)))
                      roundNumbers))))"

subsection \<open>Volume levels\<close>

record volume_node =
  vn_price :: jsnum
  vn_volume :: jsnum
  binLow :: jsnum
  binHigh :: jsnum

text \<open>
  The inner loop of \<open>calculateVolumeProfile\<close>: the volume that the candles give to the
  bin from \<open>lo\<close> to \<open>hi\<close>. A candle that meets the bin gives the share of its range
  that lies in the bin, and its whole volume when its range is not positive.
\<close>

definition binVolume :: "candle list \<Rightarrow> jsnum \<Rightarrow> jsnum \<Rightarrow> jsnum" where
  "binVolume data lo hi =
     foldl (\<lambda>totalVolume c.
       if jle (c_low c) hi \<and> jge (c_high c) lo
       then (let overlap = jsub (jmin2 (c_high c) hi) (jmax2 (c_low c) lo);
                 candleRange = jsub (c_high c) (c_low c);
                 volumeRatio = (if jgt candleRange (Fin 0) then jdiv overlap candleRange else Fin 1)
             in jadd totalVolume (jmul (c_volume c) volumeRatio))
       else totalVolume) (Fin 0) data"

definition calculateVolumeProfile :: "candle list \<Rightarrow> nat \<Rightarrow> volume_node list" where
  "calculateVolumeProfile data bins =
     (let priceRange = jsub (Math_max (map c_high data)) (Math_min (map c_low data));
          binSize = jdiv priceRange (Fin (real bins));
          minPrice = Math_min (map c_low data)
      in map (\<lambda>i.
           let lo = jadd minPrice (jmul (Fin (real i)) binSize);
               hi = jadd lo binSize;
               binMid = jdiv (jadd lo hi) (Fin 2)
           in \<lparr> vn_price = binMid, vn_volume = binVolume data lo hi, binLow = lo, binHigh = hi \<rparr>)
         [0 ..< bins])"

definition byVolumeDesc :: "volume_node \<Rightarrow> volume_node \<Rightarrow> jsnum" where
  "byVolumeDesc a b = jsub (vn_volume b) (vn_volume a)"

text \<open>
  \<open>sortedByVolume[Math.floor(sortedByVolume.length * 0.1)]\<close> is \<open>undefined\<close> when the
  index is out of range, and reading \<open>.volume\<close> from it throws.
\<close>

definition findVolumeLevels :: "candle list \<Rightarrow> level list result" where
  "findVolumeLevels data =
     (let volumeProfile = calculateVolumeProfile data 50;
          sortedByVolume = sort_by byVolumeDesc volumeProfile;
          k = length sortedByVolume div 10
      in if length sortedByVolume \<le> k then Inl TypeError
         else (let highVolumeThreshold = vn_volume (sortedByVolume ! k)
               in Inr (map (\<lambda>node.
                         \<lparr> lv_price = vn_price node,
                           touches = countTouches (vn_price node) data (Fin (5 / 1000)),
                           strength = jdiv (vn_volume node) (Fin 1000),
                           firstTouch = None,
                           lastTouch = None,
                           lv_volume = Some (vn_volume node),
                           lv_type = Volume,
                           isRecent = True,
                           isRelevant = True \<rparr>)
                       (filter (\<lambda>node. jge (vn_volume node) highVolumeThreshold) volumeProfile))))"

subsection \<open>Strength and findLevels\<close>

text \<open>
  The callback of \<open>levels.map\<close> in \<open>calculateLevelStrength\<close>. An absent \<open>volume\<close> is
  falsy; an absent \<open>lastTouch\<close> converts to \<open>NaN\<close> in the subtraction.
\<close>

definition levelStrength :: "candle list \<Rightarrow> jsnum \<Rightarrow> level \<Rightarrow> level" where
  "levelStrength ohlcData currentPrice lvl =
     (let s0 = jadd (Fin 0) (jmul (Fin (real (touches lvl))) (Fin 15));
          s1 = (case lv_volume lvl of
                  None \<Rightarrow> s0
                | Some v \<Rightarrow>
                    if truthy v
                    then (let avgVolume = jdiv (jsum (map c_volume ohlcData)) (jlen ohlcData);
                              volumeRatio = jdiv v avgVolume
                          in jadd s0 (jmul (jmul volumeRatio volumeWeightFactor) (Fin 20)))
                    else s0);
          s2 = (if isRecent lvl then jadd s1 (Fin 10) else s1);
          distanceRatio = jdiv (jabs (jsub (lv_price lvl) currentPrice)) currentPrice;
          s3 = (if jlt distanceRatio (Fin (5 / 100)) then jadd s2 (Fin 15)
                else if jlt distanceRatio (Fin (1 / 10)) then jadd s2 (Fin 10)
                else s2);
          dataLength = jlen ohlcData;
          levelAge = jsub dataLength (case lastTouch lvl of None \<Rightarrow> NaN | Some t \<Rightarrow> t);
          ageFactor = jmax2 (Fin 0) (jsub (Fin 1) (jdiv levelAge dataLength));
          s4 = jadd s3 (jmul ageFactor (Fin 10));
          s5 = (if lv_type lvl = Psychological then jadd s4 (Fin 5) else s4);
          s6 = (if lv_type lvl = Volume then jadd s5 (Fin 8) else s5)
      in lvl\<lparr> strength := jround s6 \<rparr>)"

definition calculateLevelStrength :: "level list \<Rightarrow> candle list \<Rightarrow> level list result" where
  "calculateLevelStrength levels ohlcData =
     bind_result (last_close ohlcData) (\<lambda>currentPrice.
       Inr (map (levelStrength ohlcData currentPrice) levels))"

record levels =
  support :: "level list"
  resistance :: "level list"
  pivotPoints :: pivot_points
  keyLevels :: "level list"

definition findLevels :: "candle list \<Rightarrow> levels result" where
  "findLevels ohlcData =
     (let pivots = findPivotPoints ohlcData
      in bind_result (identifySupportLevels (lows pivots) ohlcData) (\<lambda>supportLevels.
         bind_result (identifyResistanceLevels (highs pivots) ohlcData) (\<lambda>resistanceLevels.
         bind_result (findPsychologicalLevels ohlcData) (\<lambda>psychLevels.
         bind_result (findVolumeLevels ohlcData) (\<lambda>volumeLevels.
         bind_result (calculateLevelStrength supportLevels ohlcData) (\<lambda>support'.
         bind_result (calculateLevelStrength resistanceLevels ohlcData) (\<lambda>resistance'.
           Inr \<lparr> support = support',
                 resistance = resistance',
                 pivotPoints = pivots,
                 keyLevels = psychLevels @ volumeLevels \<rparr>)))))))"

section \<open>Smart money analyser\<close>

datatype direction = Bullish | Bearish | Neutral


subsection \<open>Swing highs and lows\<close>

text \<open>
  A swing has the fields \<open>index\<close>, \<open>price\<close>, \<open>time\<close> and \<open>volume\<close> of a pivot, and
  is kept in the same record. The test is \<open>===\<close> against the maximum of the window.
\<close>

definition isSwingHigh :: "candle list \<Rightarrow> nat \<Rightarrow> nat \<Rightarrow> bool" where
  "isSwingHigh data i lookback =
     (let segment = window data i lookback; current = segment ! lookback
      in jeq (c_high current) (Math_max (map c_high segment)))"

definition isSwingLow :: "candle list \<Rightarrow> nat \<Rightarrow> nat \<Rightarrow> bool" where
  "isSwingLow data i lookback =
     (let segment = window data i lookback; current = segment ! lookback
      in jeq (c_low current) (Math_min (map c_low segment)))"

definition findSwingHighs :: "candle list \<Rightarrow> nat \<Rightarrow> pivot list" where
  "findSwingHighs data lookback =
     map (\<lambda>i. let current = window data i lookback ! lookback
              in \<lparr> pv_index = i, pv_price = c_high current,
                   pv_time = c_time current, pv_volume = c_volume current \<rparr>)
       (filter (\<lambda>i. isSwingHigh data i lookback) [lookback ..< length data - lookback])"

definition findSwingLows :: "candle list \<Rightarrow> nat \<Rightarrow> pivot list" where
  "findSwingLows data lookback =
     map (\<lambda>i. let current = window data i lookback ! lookback
              in \<lparr> pv_index = i, pv_price = c_low current,
                   pv_time = c_time current, pv_volume = c_volume current \<rparr>)
       (filter (\<lambda>i. isSwingLow data i lookback) [lookback ..< length data - lookback])"

subsection \<open>Market structure\<close>

record structure_break =
  sb_type :: direction
  sb_level :: jsnum
  sb_confirmed :: bool

record market_structure =
  trend :: direction
  higherHighs :: nat
  higherLows :: nat
  lowerHighs :: nat
  lowerLows :: nat
  breakOfStructure :: "structure_break option"
  changeOfCharacter :: "structure_break option"






subsection \<open>Order blocks\<close>

record order_block =
  ob_type :: direction
  ob_high :: jsnum
  ob_low :: jsnum
  ob_index :: nat
  ob_time :: jsnum
  ob_volume :: jsnum
  ob_strength :: jsnum
  tested :: bool

definition isBullishOrderBlock :: "candle \<Rightarrow> candle \<Rightarrow> candle \<Rightarrow> jsnum \<Rightarrow> bool" where
  "isBullishOrderBlock prev current next avgVolume =
     (let bodySize = jsub (c_close current) (c_open current);
          candleRange = jsub (c_high current) (c_low current);
          bodyRatio = jdiv bodySize candleRange
      in jgt (c_close current) (c_open current) \<and>
         jgt bodyRatio (Fin (6 / 10)) \<and>
         jgt (c_volume current) (jmul avgVolume (Fin (12 / 10))) \<and>
         jgt (c_close next) (c_close current))"

definition isBearishOrderBlock :: "candle \<Rightarrow> candle \<Rightarrow> candle \<Rightarrow> jsnum \<Rightarrow> bool" where
  "isBearishOrderBlock prev current next avgVolume =
     (let bodySize = jsub (c_open current) (c_close current);
          candleRange = jsub (c_high current) (c_low current);
          bodyRatio = jdiv bodySize candleRange
      in jlt (c_close current) (c_open current) \<and>
         jgt bodyRatio (Fin (6 / 10)) \<and>
         jgt (c_volume current) (jmul avgVolume (Fin (12 / 10))) \<and>
         jlt (c_close next) (c_close current))"

definition calculateOrderBlockStrength :: "candle \<Rightarrow> jsnum \<Rightarrow> jsnum" where
  "calculateOrderBlockStrength c avgVolume =
     (let volumeRatio = jdiv (c_volume c) avgVolume;
          bodySize = jabs (jsub (c_close c) (c_open c));
          candleRange = jsub (c_high c) (c_low c);
          bodyRatio = jdiv bodySize candleRange
      in jround (jadd (jmul volumeRatio (Fin 30)) (jmul bodyRatio (Fin 20))))"

text \<open>
  The loop \<open>for (i = ob.index + 1; i < data.length; i++)\<close> with its \<open>break\<close>: some candle
  after the block satisfies the test of the block's kind.
\<close>

definition testsOrderBlock :: "order_block \<Rightarrow> candle \<Rightarrow> bool" where
  "testsOrderBlock ob c =
     (if ob_type ob = Bullish
      then jle (c_low c) (ob_high ob) \<and> jge (c_low c) (ob_low ob)
      else jge (c_high c) (ob_low ob) \<and> jle (c_high c) (ob_high ob))"

definition markTestedOrderBlocks :: "order_block list \<Rightarrow> candle list \<Rightarrow> order_block list" where
  "markTestedOrderBlocks orderBlocks data =
     map (\<lambda>ob. ob\<lparr> tested := list_ex (testsOrderBlock ob) (drop (ob_index ob + 1) data) \<rparr>)
       orderBlocks"

definition findOrderBlocks :: "candle list \<Rightarrow> order_block list" where
  "findOrderBlocks data =
     (let avgVolume = jdiv (jsum (map c_volume data)) (jlen data);
          block = (\<lambda>ty i. let current = data ! i
                          in \<lparr> ob_type = ty, ob_high = c_high current, ob_low = c_low current,
                               ob_index = i, ob_time = c_time current,
                               ob_volume = c_volume current,
                               ob_strength = calculateOrderBlockStrength current avgVolume,
                               tested = False \<rparr>);
          orderBlocks = concat (map (\<lambda>i.
              (if isBullishOrderBlock (data ! (i - 1)) (data ! i) (data ! (i + 1)) avgVolume
               then [block Bullish i] else []) @
              (if isBearishOrderBlock (data ! (i - 1)) (data ! i) (data ! (i + 1)) avgVolume
               then [block Bearish i] else []))
            [1 ..< length data - 1])
      in markTestedOrderBlocks orderBlocks data)"

subsection \<open>Fair value gaps\<close>

record fair_value_gap =
  fvg_type :: direction
  fvg_high :: jsnum
  fvg_low :: jsnum
  fvg_index :: nat
  fvg_time :: jsnum
  fvg_size :: jsnum
  filled :: bool




subsection \<open>Liquidity zones\<close>

datatype zone_type = SellSide | BuySide

record liquidity_zone =
  lz_type :: zone_type
  lz_level :: jsnum
  lz_count :: nat
  lz_strength :: nat
  swept :: bool






subsection \<open>Bias, confidence, key levels and analyze\<close>

datatype key_level_type = OrderBlockLevel | FairValueGapLevel | LiquidityLevel

record key_level =
  kl_price :: jsnum
  kl_type :: key_level_type
  kl_direction :: direction
  kl_strength :: jsnum

record analysis =
  bias :: direction
  confidence :: int
  orderBlocks :: "order_block list"
  fairValueGaps :: "fair_value_gap list"
  liquidityZones :: "liquidity_zone list"
  marketStructure :: market_structure
  keyLevels_smc :: "key_level list"






section \<open>Elliott wave analyser\<close>

datatype swing_type = High | Low

record swing =
  sw_index :: nat
  sw_price :: jsnum
  sw_type :: swing_type
  sw_time :: jsnum

subsection \<open>Swing points\<close>

text \<open>
  One more step of the loop of \<open>filterSignificantSwings\<close>: \<open>filtered\<close> is the array
  built so far, \<open>current\<close> the swing under inspection.
\<close>

definition filterStep :: "swing list \<Rightarrow> swing \<Rightarrow> swing list" where
  "filterStep filtered current =
     (if filtered = [] then [current]
      else (let lst = last filtered;
                priceChange = jdiv (jabs (jsub (sw_price current) (sw_price lst))) (sw_price lst)
            in if jge priceChange (Fin (2 / 100)) \<and> sw_type current \<noteq> sw_type lst
               then filtered @ [current]
               else if sw_type current = sw_type lst
               then (if (sw_type current = High \<and> jgt (sw_price current) (sw_price lst)) \<or>
                        (sw_type current = Low \<and> jlt (sw_price current) (sw_price lst))
                     then butlast filtered @ [current]
                     else filtered)
               else filtered))"

definition filterSignificantSwings :: "swing list \<Rightarrow> swing list" where
  "filterSignificantSwings swings = foldl filterStep [] swings"

definition identifySwingPoints :: "candle list \<Rightarrow> swing list" where
  "identifySwingPoints data =
     (let lookback = 5;
          swings = concat (map (\<lambda>i.
              let segment = window data i lookback; current = segment ! lookback
              in (if jeq (c_high current) (Math_max (map c_high segment))
                  then [\<lparr> sw_index = i, sw_price = c_high current, sw_type = High,
                          sw_time = c_time current \<rparr>]
                  else []) @
                 (if jeq (c_low current) (Math_min (map c_low segment))
                  then [\<lparr> sw_index = i, sw_price = c_low current, sw_type = Low,
                          sw_time = c_time current \<rparr>]
                  else []))
            [lookback ..< length data - lookback])
      in filterSignificantSwings swings)"

subsection \<open>Impulse waves\<close>

text \<open>
  \<open>validateElliottRules\<close> destructures \<open>[w1, w2, w3, w4, w5] = waves\<close> and reads the
  prices of all five; an array with fewer than five swings leaves one of them
  \<open>undefined\<close>, and the read throws.
\<close>

definition validateElliottRules :: "swing list \<Rightarrow> direction \<Rightarrow> (int \<times> string list) result" where
  "validateElliottRules waves dir =
     (case waves of
        w1 # w2 # w3 # w4 # w5 # rest \<Rightarrow>
          if dir = Bullish
          then (let rule1 = jgt (sw_price w2) (sw_price w1);
                    wave1Length = jsub (sw_price w2) (sw_price w1);
                    wave3Length = jsub (sw_price w4) (sw_price w3);
                    wave5Length = jsub (sw_price w5) (sw_price w4);
                    rule2 = jge wave3Length wave1Length \<and> jge wave3Length wave5Length;
                    rule3 = jgt (sw_price w4) (sw_price w2);
                    ratio = jdiv wave3Length wave1Length;
                    guideline = jge ratio (Fin (15 / 10)) \<and> jle ratio (Fin (17 / 10))
                in Inr ((if rule1 then 15 else 0) + (if rule2 then 20 else 0) +
                        (if rule3 then 15 else 0) + (if guideline then 10 else 0),
                        (if rule1 then [''Wave 2 retracement valid''] else []) @
                        (if rule2 then [''Wave 3 is not shortest''] else []) @
                        (if rule3 then [''Wave 4 does not overlap wave 1''] else []) @
                        (if guideline then [''Wave 3 shows proper extension''] else [])))
          else (let rule1 = jlt (sw_price w2) (sw_price w1);
                    wave1Length = jsub (sw_price w1) (sw_price w2);
                    wave3Length = jsub (sw_price w3) (sw_price w4);
                    wave5Length = jsub (sw_price w4) (sw_price w5);
                    rule2 = jge wave3Length wave1Length \<and> jge wave3Length wave5Length;
                    rule3 = jlt (sw_price w4) (sw_price w2);
                    ratio = jdiv wave3Length wave1Length;
                    guideline = jge ratio (Fin (15 / 10)) \<and> jle ratio (Fin (17 / 10))
                in Inr ((if rule1 then 15 else 0) + (if rule2 then 20 else 0) +
                        (if rule3 then 15 else 0) + (if guideline then 10 else 0),
                        (if rule1 then [''Wave 2 retracement valid''] else []) @
                        (if rule2 then [''Wave 3 is not shortest''] else []) @
                        (if rule3 then [''Wave 4 does not overlap wave 1''] else []) @
                        (if guideline then [''Wave 3 shows proper extension''] else [])))
      | _ \<Rightarrow> Inl TypeError)"

record wave_ratios =
  wave2Retracement :: jsnum
  wave3Extension :: jsnum
  wave4Retracement :: jsnum
  wave5Ratio :: jsnum

definition calculateWaveRatios :: "swing list \<Rightarrow> wave_ratios result" where
  "calculateWaveRatios waves =
     (case waves of
        w1 # w2 # w3 # w4 # w5 # rest \<Rightarrow>
          (let wave1Length = jabs (jsub (sw_price w2) (sw_price w1));
               wave2Length = jabs (jsub (sw_price w3) (sw_price w2));
               wave3Length = jabs (jsub (sw_price w4) (sw_price w3));
               wave4Length = jabs (jsub (sw_price w5) (sw_price w4));
               wave5Length = jabs (jsub (sw_price w5) (sw_price w4))
           in Inr \<lparr> wave2Retracement = jdiv wave2Length wave1Length,
                     wave3Extension = jdiv wave3Length wave1Length,
                     wave4Retracement = jdiv wave4Length wave3Length,
                     wave5Ratio = jdiv wave5Length wave1Length \<rparr>)
      | _ \<Rightarrow> Inl TypeError)"

definition isNearFibRatio :: "jsnum \<Rightarrow> jsnum list \<Rightarrow> jsnum \<Rightarrow> bool" where
  "isNearFibRatio v targets tolerance =
     list_ex (\<lambda>target. jle (jabs (jsub v target)) tolerance) targets"

text \<open>
  The detail lines of \<open>checkFibonacciRelationships\<close> are texts built from a ratio with
  \<open>toFixed(1)\<close>; the model keeps which line it is and the ratio it prints.
\<close>

datatype fib_detail =
  Wave2RetracementLine jsnum
  | Wave3ExtensionLine jsnum
  | Wave4RetracementLine jsnum
  | Wave5RatioLine jsnum

definition checkFibonacciRelationships :: "swing list \<Rightarrow> (int \<times> fib_detail list) result" where
  "checkFibonacciRelationships waves =
     bind_result (calculateWaveRatios waves) (\<lambda>ratios.
       let f2 = isNearFibRatio (wave2Retracement ratios)
                  [Fin (5 / 10), Fin (618 / 1000), Fin (786 / 1000)] (Fin (1 / 10));
           f3 = isNearFibRatio (wave3Extension ratios)
                  [Fin (1618 / 1000), Fin (2618 / 1000)] (Fin (1 / 10));
           f4 = isNearFibRatio (wave4Retracement ratios)
                  [Fin (236 / 1000), Fin (382 / 1000), Fin (5 / 10)] (Fin (1 / 10));
           f5 = isNearFibRatio (wave5Ratio ratios) [Fin 1, Fin (618 / 1000)] (Fin (1 / 10))
       in Inr ((if f2 then 10 else 0) + (if f3 then 15 else 0) +
               (if f4 then 10 else 0) + (if f5 then 10 else 0),
               (if f2 then [Wave2RetracementLine (wave2Retracement ratios)] else []) @
               (if f3 then [Wave3ExtensionLine (wave3Extension ratios)] else []) @
               (if f4 then [Wave4RetracementLine (wave4Retracement ratios)] else []) @
               (if f5 then [Wave5RatioLine (wave5Ratio ratios)] else [])))"

text \<open>
  The object returned by \<open>analyzeImpulseWave\<close> and \<open>analyzeCorrectiveWave\<close>. The early
  returns are \<open>{ isValid: false }\<close>: the other properties are absent.
\<close>

record wave_check =
  wc_isValid :: bool
  wc_direction :: "direction option"
  wc_confidence :: "int option"
  wc_rules :: "string list"
  wc_fibonacci :: "fib_detail list"

definition invalid_check :: wave_check where
  "invalid_check = \<lparr> wc_isValid = False, wc_direction = None, wc_confidence = None,
                     wc_rules = [], wc_fibonacci = [] \<rparr>"

definition analyzeImpulseWave :: "swing list \<Rightarrow> wave_check result" where
  "analyzeImpulseWave waves =
     (case waves of
        [w1, w2, w3, w4, w5] \<Rightarrow>
          (let alternationCorrect =
                 ((sw_type w1 \<noteq> sw_type w2 \<and> sw_type w2 \<noteq> sw_type w3 \<and>
                   sw_type w3 \<noteq> sw_type w4 \<and> sw_type w4 \<noteq> sw_type w5) \<and>
                  (sw_type w1 = sw_type w3 \<and> sw_type w3 = sw_type w5) \<and>
                  sw_type w2 = sw_type w4)
           in if \<not> alternationCorrect then Inr invalid_check
              else (let dir = (if sw_type w1 = Low then Bullish else Bearish)
                    in bind_result (validateElliottRules waves dir) (\<lambda>(rscore, rdetails).
                       bind_result (checkFibonacciRelationships waves) (\<lambda>(fscore, fdetails).
                         let c = 20 + rscore + fscore
                         in Inr \<lparr> wc_isValid = (60 \<le> c),
                                   wc_direction = Some dir,
                                   wc_confidence = Some (min c 95),
                                   wc_rules = rdetails,
                                   wc_fibonacci = fdetails \<rparr>))))
      | _ \<Rightarrow> Inr invalid_check)"

subsection \<open>Corrective waves\<close>

definition analyzeCorrectiveWave :: "swing list \<Rightarrow> wave_check" where
  "analyzeCorrectiveWave waves =
     (case waves of
        [wA, wB, wC] \<Rightarrow>
          (let alternationCorrect =
                 (sw_type wA \<noteq> sw_type wB \<and> sw_type wB \<noteq> sw_type wC \<and> sw_type wA = sw_type wC)
           in if \<not> alternationCorrect then invalid_check
              else (let dir = (if sw_type wA = High then Bearish else Bullish);
                        waveALength = jabs (jsub (sw_price wB) (sw_price wA));
                        waveCLength = jabs (jsub (sw_price wC) (sw_price wB));
                        cToARatio = jdiv waveCLength waveALength;
                        bRetracement = jdiv (jabs (jsub (sw_price wB) (sw_price wA))) waveALength;
                        c = 20 +
                            (if isNearFibRatio cToARatio [Fin 1, Fin (1618 / 1000)] (Fin (1 / 10))
                             then 20 else 0) +
                            (if isNearFibRatio bRetracement
                                  [Fin (5 / 10), Fin (618 / 1000), Fin (786 / 1000)] (Fin (1 / 10))
                             then 15 else 0)
                    in \<lparr> wc_isValid = (40 \<le> c),
                          wc_direction = Some dir,
                          wc_confidence = Some (min c 90),
                          wc_rules = [],
                          wc_fibonacci = [] \<rparr>))
      | _ \<Rightarrow> invalid_check)"

subsection \<open>Wave structure\<close>

datatype structure_type = Impulse | Corrective

text \<open>
  A candidate structure. \<open>direction\<close> and \<open>confidence\<close> are copied from a valid check,
  where both are present.
\<close>

record wave_structure =
  ws_type :: structure_type
  waves :: "swing list"
  ws_direction :: "direction option"
  ws_confidence :: "int option"
  startIndex :: nat
  endIndex :: nat

text \<open>The comparator \<open>b.confidence - a.confidence\<close>; an absent confidence converts to \<open>NaN\<close>.\<close>

definition num_of :: "int option \<Rightarrow> jsnum" where
  "num_of c = (case c of None \<Rightarrow> NaN | Some n \<Rightarrow> Fin (real_of_int n))"

definition byConfidenceDesc :: "wave_structure \<Rightarrow> wave_structure \<Rightarrow> jsnum" where
  "byConfidenceDesc a b = jsub (num_of (ws_confidence b)) (num_of (ws_confidence a))"

text \<open>
  The bodies of the two loops of \<open>identifyWaveStructure\<close>: the structures pushed for the
  window that starts at \<open>i\<close> (none or one).
\<close>

definition impulseCandidate :: "swing list \<Rightarrow> nat \<Rightarrow> wave_structure list result" where
  "impulseCandidate swings i =
     (let fiveWaves = take 5 (drop i swings)
      in bind_result (analyzeImpulseWave fiveWaves) (\<lambda>impulseStructure.
           Inr (if wc_isValid impulseStructure
                then [\<lparr> ws_type = Impulse, waves = fiveWaves,
                        ws_direction = wc_direction impulseStructure,
                        ws_confidence = wc_confidence impulseStructure,
                        startIndex = i, endIndex = i + 4 \<rparr>]
                else [])))"

definition correctiveCandidate :: "swing list \<Rightarrow> nat \<Rightarrow> wave_structure list" where
  "correctiveCandidate swings i =
     (let threeWaves = take 3 (drop i swings);
          correctiveStructure = analyzeCorrectiveWave threeWaves
      in if wc_isValid correctiveStructure
         then [\<lparr> ws_type = Corrective, waves = threeWaves,
                 ws_direction = wc_direction correctiveStructure,
                 ws_confidence = wc_confidence correctiveStructure,
                 startIndex = i, endIndex = i + 2 \<rparr>]
         else [])"

definition identifyWaveStructure :: "swing list \<Rightarrow> wave_structure option result" where
  "identifyWaveStructure swings =
     (if length swings < 5 then Inr None
      else bind_result (map_result (impulseCandidate swings) [0 ..< length swings - 4]) (\<lambda>imps.
             let structures = concat imps @
                              concat (map (correctiveCandidate swings) [0 ..< length swings - 2])
             in Inr (if structures \<noteq> [] then Some (sort_by byConfidenceDesc structures ! 0)
                     else None)))"

subsection \<open>Current wave, confidence and projections\<close>

function decimal :: "nat \<Rightarrow> string" where
  "decimal n = (if n < 10 then [char_of (48 + n)]
                else decimal (n div 10) @ [char_of (48 + n mod 10)])"
  by pat_completeness auto
termination
  by (relation "measure id") auto

definition determineCurrentWave :: "wave_structure option \<Rightarrow> candle list \<Rightarrow> string option result" where
  "determineCurrentWave structure ohlcData =
     (case structure of
        None \<Rightarrow> Inr None
      | Some st \<Rightarrow>
          bind_result (last_close ohlcData) (\<lambda>currentPrice.
            let waveCount = length (waves st)
            in if ws_type st = Impulse
               then (if waveCount = 5
                     then (let lastWave = last (waves st)
                           in if ws_direction st = Some Bullish \<and> jlt currentPrice (sw_price lastWave)
                              then Inr (Some ''A (corrective)'')
                              else if ws_direction st = Some Bearish \<and>
                                      jgt currentPrice (sw_price lastWave)
                              then Inr (Some ''A (corrective)'')
                              else Inr (Some ''5 (completing)''))
                     else Inr (Some (decimal waveCount @ '' (impulse)'')))
               else (if waveCount \<le> 3
                     then Inr (Some ((if waveCount = 0 then ''undefined''
                                      else [''A'', ''B'', ''C''] ! (waveCount - 1)) @ '' (corrective)''))
                     else Inr (Some ''C (completing)''))))"

definition calculateWaveConfidence :: "wave_structure option \<Rightarrow> jsnum" where
  "calculateWaveConfidence structure =
     (case structure of
        None \<Rightarrow> Fin 0
      | Some st \<Rightarrow>
          (let c0 = num_of (ws_confidence st);
               c1 = (if ws_type st = Impulse \<and> length (waves st) = 5 then jadd c0 (Fin 10)
                     else if ws_type st = Corrective \<and> length (waves st) = 3 then jadd c0 (Fin 10)
                     else c0);
               c2 = (if length (waves st) < 3 then jsub c1 (Fin 20) else c1)
           in jmax2 (Fin 0) (jmin2 (Fin 95) c2)))"

record impulse_projections =
  wave5_equal :: "jsnum option"
  wave5_618 :: "jsnum option"

record corrective_projections =
  waveC_equal :: "jsnum option"
  waveC_1618 :: "jsnum option"

record projections =
  pr_impulse :: "impulse_projections option"
  pr_corrective :: "corrective_projections option"

text \<open>
  With three or four waves \<open>calculateImpulseProjections\<close> reads \<open>waves[4].price\<close> from
  \<open>undefined\<close> and throws.
\<close>

definition calculateImpulseProjections :: "wave_structure \<Rightarrow> jsnum \<Rightarrow> impulse_projections result" where
  "calculateImpulseProjections st currentPrice =
     (let ws = waves st
      in if 3 \<le> length ws
         then (if length ws \<le> 4 then Inl TypeError
               else (let wave1Length = jabs (jsub (sw_price (ws ! 1)) (sw_price (ws ! 0)));
                         wave1to3Range = jabs (jsub (sw_price (ws ! 2)) (sw_price (ws ! 0)))
                     in Inr \<lparr> wave5_equal =
                                 Some (if ws_direction st = Some Bullish
                                       then jadd (sw_price (ws ! 4)) wave1Length
                                       else jsub (sw_price (ws ! 4)) wave1Length),
                               wave5_618 =
                                 Some (if ws_direction st = Some Bullish
                                       then jadd (sw_price (ws ! 4))
                                              (jmul wave1to3Range (Fin (618 / 1000)))
                                       else jsub (sw_price (ws ! 4))
                                              (jmul wave1to3Range (Fin (618 / 1000)))) \<rparr>))
         else Inr \<lparr> wave5_equal = None, wave5_618 = None \<rparr>)"

definition calculateCorrectiveProjections :: "wave_structure \<Rightarrow> jsnum \<Rightarrow> corrective_projections" where
  "calculateCorrectiveProjections st currentPrice =
     (let ws = waves st
      in if 2 \<le> length ws
         then (let waveALength = jabs (jsub (sw_price (ws ! 1)) (sw_price (ws ! 0)))
               in \<lparr> waveC_equal =
                       Some (if ws_direction st = Some Bearish
                             then jsub (sw_price (ws ! 1)) waveALength
                             else jadd (sw_price (ws ! 1)) waveALength),
                     waveC_1618 =
                       Some (if ws_direction st = Some Bearish
                             then jsub (sw_price (ws ! 1)) (jmul waveALength (Fin (1618 / 1000)))
                             else jadd (sw_price (ws ! 1)) (jmul waveALength (Fin (1618 / 1000)))) \<rparr>)
         else \<lparr> waveC_equal = None, waveC_1618 = None \<rparr>)"

definition calculateWaveProjections ::
  "wave_structure option \<Rightarrow> candle list \<Rightarrow> projections option result" where
  "calculateWaveProjections structure ohlcData =
     (case structure of
        None \<Rightarrow> Inr None
      | Some st \<Rightarrow>
          bind_result (last_close ohlcData) (\<lambda>currentPrice.
            if ws_type st = Impulse
            then bind_result (calculateImpulseProjections st currentPrice) (\<lambda>p.
                   Inr (Some \<lparr> pr_impulse = Some p, pr_corrective = None \<rparr>))
            else Inr (Some \<lparr> pr_impulse = None,
                              pr_corrective = Some (calculateCorrectiveProjections st currentPrice) \<rparr>)))"

subsection \<open>analyzeWave\<close>

text \<open>
  The result of \<open>analyzeWave\<close>. The early return has no \<open>projections\<close> property; the
  model gives it \<open>None\<close>, as it does a \<open>null\<close> one.
\<close>

record wave_analysis =
  isValid :: bool
  currentWave :: "string option"
  wa_confidence :: jsnum
  waveStructure :: "wave_structure option"
  wa_projections :: "projections option"

definition analyzeWave :: "candle list \<Rightarrow> wave_analysis result" where
  "analyzeWave ohlcData =
     (let swingPoints = identifySwingPoints ohlcData
      in if length swingPoints < 5
         then Inr \<lparr> isValid = False, currentWave = None, wa_confidence = Fin 0,
                     waveStructure = None, wa_projections = None \<rparr>
         else bind_result (identifyWaveStructure swingPoints) (\<lambda>structure.
              bind_result (determineCurrentWave structure ohlcData) (\<lambda>cw.
                let conf = calculateWaveConfidence structure
                in bind_result (calculateWaveProjections structure ohlcData) (\<lambda>proj.
                     Inr \<lparr> isValid = jge conf (Fin 60), currentWave = cw, wa_confidence = conf,
                           waveStructure = structure, wa_projections = proj \<rparr>))))"

section \<open>Pattern analyser\<close>

datatype trade_direction = Long | Short | NeutralTrade

record pattern =
  name :: string
  pt_direction :: trade_direction
  pt_confidence :: int
  breakoutConfirmed :: bool
  entry :: jsnum
  target :: jsnum



subsection \<open>Helpers\<close>





































subsection \<open>Detectors\<close>








section \<open>Properties and sample inputs\<close>

subsection \<open>Predicates of the specification\<close>

text \<open>
  Re-clustering: \<open>means\<close> is a list with one pivot per cluster of the first pass, priced
  at the cluster's mean. The second pass gives the same clusters when its clusters are
  singletons with the means of the first pass.
\<close>

definition reclusteredSame :: "pivot list \<Rightarrow> pivot list \<Rightarrow> bool" where
  "reclusteredSame pivots means =
     (map avgPrice (clusterPivotPoints means) = map avgPrice (clusterPivotPoints pivots) \<and>
      list_all (\<lambda>c. length (points c) = 1) (clusterPivotPoints means))"

text \<open>
  The membership test of \<open>clusterPivotPoints\<close> for a price \<open>p\<close> against a mean \<open>a\<close>,
  and a list of means in which no mean passes the test against an earlier one.
\<close>

definition withinTolerance :: "jsnum \<Rightarrow> jsnum \<Rightarrow> jsnum \<Rightarrow> bool" where
  "withinTolerance tolerance p a = jle (jdiv (jabs (jsub p a)) a) tolerance"

fun separated :: "jsnum \<Rightarrow> jsnum list \<Rightarrow> bool" where
  "separated tolerance [] = True"
| "separated tolerance (a # ps) =
     ((\<forall>p \<in> set ps. \<not> withinTolerance tolerance p a) \<and> separated tolerance ps)"

definition singleton_cluster :: "pivot \<Rightarrow> cluster" where
  "singleton_cluster q = \<lparr> avgPrice = pv_price q, points = [q] \<rparr>"

text \<open>A level with fewer touches than \<open>minTouchCount\<close>.\<close>

definition belowMinTouch :: "level \<Rightarrow> bool" where
  "belowMinTouch l = (touches l < minTouchCount)"

text \<open>A list of levels in descending order of strength.\<close>

definition sortedByStrengthDesc :: "level list \<Rightarrow> bool" where
  "sortedByStrengthDesc ls = sorted_wrt (\<lambda>a b. jge (strength a) (strength b)) ls"

text \<open>
  The three lengths that \<open>validateElliottRules\<close> compares in its second rule, and wave 3
  not being the shortest of them: it is longer than wave 1 or longer than wave 5.
\<close>

definition waveLengths :: "swing list \<Rightarrow> direction \<Rightarrow> jsnum \<times> jsnum \<times> jsnum" where
  "waveLengths ws dir =
     (if dir = Bullish
      then (jsub (sw_price (ws ! 1)) (sw_price (ws ! 0)),
            jsub (sw_price (ws ! 3)) (sw_price (ws ! 2)),
            jsub (sw_price (ws ! 4)) (sw_price (ws ! 3)))
      else (jsub (sw_price (ws ! 0)) (sw_price (ws ! 1)),
            jsub (sw_price (ws ! 2)) (sw_price (ws ! 3)),
            jsub (sw_price (ws ! 3)) (sw_price (ws ! 4))))"

definition wave3NotShortest :: "jsnum \<times> jsnum \<times> jsnum \<Rightarrow> bool" where
  "wave3NotShortest ls =
     (case ls of (wave1Length, wave3Length, wave5Length) \<Rightarrow>
        jgt wave3Length wave1Length \<or> jgt wave3Length wave5Length)"

text \<open>
  A candle whose price range \<open>[low, high]\<close> meets the band \<open>[low, high]\<close> of an order
  block.
\<close>

definition priceRevisits :: "order_block \<Rightarrow> candle \<Rightarrow> bool" where
  "priceRevisits ob c = (jle (c_low c) (ob_high ob) \<and> jge (c_high c) (ob_low ob))"


subsection \<open>Sample inputs\<close>

definition mk_candle :: "real \<Rightarrow> real \<Rightarrow> real \<Rightarrow> real \<Rightarrow> real \<Rightarrow> real \<Rightarrow> candle" where
  "mk_candle t opn h l c v =
     \<lparr> c_time = Fin t, c_open = Fin opn, c_high = Fin h, c_low = Fin l, c_close = Fin c,
       c_volume = Fin v \<rparr>"

definition mk_pivot :: "nat \<Rightarrow> real \<Rightarrow> pivot" where
  "mk_pivot i p = \<lparr> pv_index = i, pv_price = Fin p, pv_time = Fin (real i), pv_volume = Fin 1 \<rparr>"

definition mk_swing :: "nat \<Rightarrow> swing_type \<Rightarrow> real \<Rightarrow> swing" where
  "mk_swing i t p = \<lparr> sw_index = i, sw_price = Fin p, sw_type = t, sw_time = Fin (real i) \<rparr>"

text \<open>
  Three pivots at 100, 100.6 and 100.4: the second is 0.6 percent above the first and
  opens a cluster; the third joins the first cluster and moves its mean to 100.2, which
  is within 0.5 percent of 100.6.
\<close>

definition greedy_pivots :: "pivot list" where
  "greedy_pivots = [mk_pivot 5 100, mk_pivot 20 (1006 / 10), mk_pivot 35 (1004 / 10)]"

definition greedy_means :: "pivot list" where
  "greedy_means = [mk_pivot 0 (1002 / 10), mk_pivot 1 (1006 / 10)]"

definition apart_pivots :: "pivot list" where
  "apart_pivots = [mk_pivot 5 100, mk_pivot 20 (1006 / 10)]"

definition apart_means :: "pivot list" where
  "apart_means = [mk_pivot 0 100, mk_pivot 1 (1006 / 10)]"

text \<open>Ten candles, one fewer than a window.\<close>

definition short_series :: "candle list" where
  "short_series =
     [mk_candle 0 105 110 100 105 1, mk_candle 1 105 110 100 105 1, mk_candle 2 105 110 100 105 1,
      mk_candle 3 105 110 100 105 1, mk_candle 4 105 110 100 105 1, mk_candle 5 105 110 100 105 1,
      mk_candle 6 105 110 100 105 1, mk_candle 7 105 110 100 105 1, mk_candle 8 105 110 100 105 1,
      mk_candle 9 105 110 100 105 1]"

text \<open>Eleven equal candles: one window, with a swing high and a swing low at its centre.\<close>

definition flat_eleven :: "candle list" where
  "flat_eleven =
     [mk_candle 0 105 110 100 105 1, mk_candle 1 105 110 100 105 1, mk_candle 2 105 110 100 105 1,
      mk_candle 3 105 110 100 105 1, mk_candle 4 105 110 100 105 1, mk_candle 5 105 110 100 105 1,
      mk_candle 6 105 110 100 105 1, mk_candle 7 105 110 100 105 1, mk_candle 8 105 110 100 105 1,
      mk_candle 9 105 110 100 105 1, mk_candle 10 105 110 100 105 1]"

text \<open>One candle from 100 to 200 closing at 150.\<close>

definition single_candle :: "candle list" where
  "single_candle = [mk_candle 0 150 200 100 150 1]"


text \<open>
  Twenty candles closing at 105 with highs at 110; the lows are 100 for the first twelve
  candles and 90 afterwards. The pivot lows are at indices 5 and 6 (price 100) and at 12,
  13 and 14 (price 90).
\<close>

definition two_level_series :: "candle list" where
  "two_level_series =
     [mk_candle 0 105 110 100 105 1, mk_candle 1 105 110 100 105 1, mk_candle 2 105 110 100 105 1,
      mk_candle 3 105 110 100 105 1, mk_candle 4 105 110 100 105 1, mk_candle 5 105 110 100 105 1,
      mk_candle 6 105 110 100 105 1, mk_candle 7 105 110 100 105 1, mk_candle 8 105 110 100 105 1,
      mk_candle 9 105 110 100 105 1, mk_candle 10 105 110 100 105 1, mk_candle 11 105 110 100 105 1,
      mk_candle 12 105 110 90 105 1, mk_candle 13 105 110 90 105 1, mk_candle 14 105 110 90 105 1,
      mk_candle 15 105 110 90 105 1, mk_candle 16 105 110 90 105 1, mk_candle 17 105 110 90 105 1,
      mk_candle 18 105 110 90 105 1, mk_candle 19 105 110 90 105 1]"

definition cluster_100 :: cluster where
  "cluster_100 = \<lparr> avgPrice = Fin 100, points =
     [\<lparr> pv_index = 5, pv_price = Fin 100, pv_time = Fin 5, pv_volume = Fin 1 \<rparr>,
      \<lparr> pv_index = 6, pv_price = Fin 100, pv_time = Fin 6, pv_volume = Fin 1 \<rparr>] \<rparr>"

definition cluster_90 :: cluster where
  "cluster_90 = \<lparr> avgPrice = Fin 90, points =
     [\<lparr> pv_index = 12, pv_price = Fin 90, pv_time = Fin 12, pv_volume = Fin 1 \<rparr>,
      \<lparr> pv_index = 13, pv_price = Fin 90, pv_time = Fin 13, pv_volume = Fin 1 \<rparr>,
      \<lparr> pv_index = 14, pv_price = Fin 90, pv_time = Fin 14, pv_volume = Fin 1 \<rparr>] \<rparr>"

definition level_100 :: "real \<Rightarrow> level" where
  "level_100 s = \<lparr> lv_price = Fin 100, touches = 2, strength = Fin s, firstTouch = Some (Fin 5),
     lastTouch = Some (Fin 6), lv_volume = Some (Fin 1), lv_type = Support,
     isRecent = False, isRelevant = True \<rparr>"

definition level_90 :: "real \<Rightarrow> level" where
  "level_90 s = \<lparr> lv_price = Fin 90, touches = 3, strength = Fin s, firstTouch = Some (Fin 12),
     lastTouch = Some (Fin 14), lv_volume = Some (Fin 1), lv_type = Support,
     isRecent = True, isRelevant = True \<rparr>"

text \<open>
  Five alternating swings, low first, at 100, 150, 120, 160 and 150: the legs compared by
  the second rule are 50, 40 and -10.
\<close>

definition impulse_window :: "swing list" where
  "impulse_window = [mk_swing 10 Low 100, mk_swing 20 High 150, mk_swing 30 Low 120,
                     mk_swing 40 High 160, mk_swing 50 Low 150]"

text \<open>
  Three candles with a bullish order block at index 1 (band from 100 to 110). In the
  first series the last candle runs from 90 to 120, across the whole band; in the second
  its low, 105, lies inside the band.
\<close>

definition straddle_series :: "candle list" where
  "straddle_series = [mk_candle 0 100 101 99 100 1, mk_candle 1 100 110 100 110 10,
                      mk_candle 2 110 120 90 111 1]"

definition revisit_series :: "candle list" where
  "revisit_series = [mk_candle 0 100 101 99 100 1, mk_candle 1 100 110 100 110 10,
                     mk_candle 2 110 112 105 111 1]"

definition bullish_block :: "bool \<Rightarrow> order_block" where
  "bullish_block t = \<lparr> ob_type = Bullish, ob_high = Fin 110, ob_low = Fin 100, ob_index = 1,
     ob_time = Fin 1, ob_volume = Fin 10, ob_strength = Fin 95, tested = t \<rparr>"

text \<open>The level that a cluster becomes when the series is not empty.\<close>

definition levelOf :: "level_type \<Rightarrow> candle list \<Rightarrow> cluster \<Rightarrow> level" where
  "levelOf ty data c = projr (clusterLevel ty data c)"

section \<open>Shared lemmas\<close>

subsection \<open>Results, sorting and slices\<close>

lemma bind_result_Inr [simp]: "bind_result (Inr x) f = f x"
  by (simp add: bind_result_def)

lemma bind_result_Inl [simp]: "bind_result (Inl e) f = Inl e"
  by (simp add: bind_result_def)

lemma last_close_nonempty: "data \<noteq> [] \<Longrightarrow> last_close data = Inr (c_close (last data))"
  by (simp add: last_close_def last_candle_def)

lemma last_close_empty: "last_close [] = Inl TypeError"
  by (simp add: last_close_def last_candle_def)

lemma map_result_total:
  assumes "\<And>x. x \<in> set xs \<Longrightarrow> f x = Inr (g x)"
  shows "map_result f xs = Inr (map g xs)"
  using assms by (induction xs) simp_all


lemma insert_by_set: "set (insert_by cmp x ys) = insert x (set ys)"
  by (induction ys) auto

lemma insert_by_length: "length (insert_by cmp x ys) = Suc (length ys)"
  by (induction ys) auto

lemma sort_by_fold_set: "set (foldl (\<lambda>acc x. insert_by cmp x acc) acc xs) = set acc \<union> set xs"
  by (induction xs arbitrary: acc) (auto simp: insert_by_set)

lemma sort_by_fold_length:
  "length (foldl (\<lambda>acc x. insert_by cmp x acc) acc xs) = length acc + length xs"
  by (induction xs arbitrary: acc) (auto simp: insert_by_length)

lemma set_sort_by: "set (sort_by cmp xs) = set xs"
  by (simp add: sort_by_def sort_by_fold_set)

lemma length_sort_by: "length (sort_by cmp xs) = length xs"
  by (simp add: sort_by_def sort_by_fold_length)

lemma sort_by_nth_mem:
  assumes "k < length xs"
  shows "sort_by cmp xs ! k \<in> set xs"
proof -
  from assms have "sort_by cmp xs ! k \<in> set (sort_by cmp xs)" by (simp add: length_sort_by)
  then show ?thesis by (simp add: set_sort_by)
qed





lemma list_ex_drop: "list_ex P (drop k xs) \<longleftrightarrow> (\<exists>i. k \<le> i \<and> i < length xs \<and> P (xs ! i))"
proof -
  have "list_ex P (drop k xs) \<longleftrightarrow> (\<exists>j < length xs - k. P (xs ! (k + j)))"
    by (auto simp: list_ex_length)
  also have "\<dots> \<longleftrightarrow> (\<exists>i. k \<le> i \<and> i < length xs \<and> P (xs ! i))"
  proof
    assume "\<exists>j < length xs - k. P (xs ! (k + j))"
    then obtain j where "j < length xs - k" "P (xs ! (k + j))" by blast
    then show "\<exists>i. k \<le> i \<and> i < length xs \<and> P (xs ! i)"
      by (intro exI[of _ "k + j"]) auto
  next
    assume "\<exists>i. k \<le> i \<and> i < length xs \<and> P (xs ! i)"
    then obtain i where "k \<le> i" "i < length xs" "P (xs ! i)" by blast
    then show "\<exists>j < length xs - k. P (xs ! (k + j))"
      by (intro exI[of _ "i - k"]) auto
  qed
  finally show ?thesis .
qed

lemma jge_refl: "x \<noteq> NaN \<Longrightarrow> jge x x"
  by (cases x) (simp_all add: jge_def jle_def)

lemma mk_candle_sel:
  "c_time (mk_candle t opn h l c v) = Fin t" "c_open (mk_candle t opn h l c v) = Fin opn"
  "c_high (mk_candle t opn h l c v) = Fin h" "c_low (mk_candle t opn h l c v) = Fin l"
  "c_close (mk_candle t opn h l c v) = Fin c" "c_volume (mk_candle t opn h l c v) = Fin v"
  by (simp_all add: mk_candle_def)

subsection \<open>Clustering\<close>

lemma addToCluster_length:
  "addToCluster tol q cs = Some cs' \<Longrightarrow> length cs' = length cs"
  by (induction cs arbitrary: cs') (auto simp: Let_def split: if_splits)

lemma clusterStep_Some: "addToCluster tol q cs = Some cs' \<Longrightarrow> clusterStep tol cs q = cs'"
  by (simp add: clusterStep_def)

lemma clusterStep_None:
  "addToCluster tol q cs = None \<Longrightarrow> clusterStep tol cs q = cs @ [singleton_cluster q]"
  by (simp add: clusterStep_def singleton_cluster_def)

lemma clusterStep_length: "length (clusterStep tol cs q) \<le> Suc (length cs)"
  by (auto simp: clusterStep_def dest: addToCluster_length split: option.splits)

lemma cluster_fold_length: "length (foldl (clusterStep tol) cs qs) \<le> length cs + length qs"
proof (induction qs arbitrary: cs)
  case Nil
  then show ?case by simp
next
  case (Cons q qs)
  have "length (foldl (clusterStep tol) (clusterStep tol cs q) qs)
          \<le> length (clusterStep tol cs q) + length qs"
    by (rule Cons.IH)
  also have "\<dots> \<le> Suc (length cs) + length qs"
    using clusterStep_length[of tol cs q] by simp
  finally show ?case by simp
qed

lemma addToCluster_singletons:
  "addToCluster tol q (map singleton_cluster qs) = None \<longleftrightarrow>
     (\<forall>p \<in> set qs. \<not> withinTolerance tol (pv_price q) (pv_price p))"
  by (induction qs) (auto simp: Let_def withinTolerance_def singleton_cluster_def)

lemma separated_snoc:
  "separated tol (ps @ [x]) \<longleftrightarrow> separated tol ps \<and> (\<forall>a \<in> set ps. \<not> withinTolerance tol x a)"
  by (induction ps) auto

text \<open>
  A pass that ends with as many clusters as pivots never merged: every cluster is the
  singleton of its pivot.
\<close>

lemma cluster_full_length:
  "length (foldl (clusterStep tol) [] qs) = length qs \<Longrightarrow>
   foldl (clusterStep tol) [] qs = map singleton_cluster qs"
proof (induction qs rule: rev_induct)
  case Nil
  then show ?case by simp
next
  case (snoc q qs)
  let ?cl = "foldl (clusterStep tol) [] qs"
  have le: "length ?cl \<le> length qs" using cluster_fold_length[of tol "[]" qs] by simp
  have step: "length (clusterStep tol ?cl q) = Suc (length qs)" using snoc.prems by simp
  show ?case
  proof (cases "addToCluster tol q ?cl")
    case (Some cs')
    then have "length cs' = length ?cl" by (rule addToCluster_length)
    moreover have "length cs' = Suc (length qs)" using step clusterStep_Some[OF Some] by simp
    ultimately show ?thesis using le by simp
  next
    case None
    then have "length ?cl = length qs" using step clusterStep_None[OF None] by simp
    then have "?cl = map singleton_cluster qs" by (rule snoc.IH)
    then show ?thesis using clusterStep_None[OF None] by simp
  qed
qed

lemma cluster_singletons_iff:
  "foldl (clusterStep tol) [] qs = map singleton_cluster qs \<longleftrightarrow> separated tol (map pv_price qs)"
proof (induction qs rule: rev_induct)
  case Nil
  then show ?case by simp
next
  case (snoc q qs)
  let ?cl = "foldl (clusterStep tol) [] qs"
  show ?case
  proof
    assume eq: "foldl (clusterStep tol) [] (qs @ [q]) = map singleton_cluster (qs @ [q])"
    then have "length (foldl (clusterStep tol) [] (qs @ [q])) = length (qs @ [q])" by simp
    have step: "clusterStep tol ?cl q = map singleton_cluster qs @ [singleton_cluster q]"
      using eq by simp
    show "separated tol (map pv_price (qs @ [q]))"
    proof (cases "addToCluster tol q ?cl")
      case (Some cs')
      then have "length cs' = length ?cl" by (rule addToCluster_length)
      moreover have "length cs' = Suc (length qs)" using step clusterStep_Some[OF Some] by simp
      moreover have "length ?cl \<le> length qs" using cluster_fold_length[of tol "[]" qs] by simp
      ultimately show ?thesis by simp
    next
      case None
      then have cl: "?cl = map singleton_cluster qs" using step clusterStep_None[OF None] by simp
      with None have "\<forall>p \<in> set qs. \<not> withinTolerance tol (pv_price q) (pv_price p)"
        by (simp add: addToCluster_singletons)
      with cl snoc.IH show ?thesis by (simp add: separated_snoc)
    qed
  next
    assume sep: "separated tol (map pv_price (qs @ [q]))"
    then have cl: "?cl = map singleton_cluster qs"
      and far: "\<forall>p \<in> set qs. \<not> withinTolerance tol (pv_price q) (pv_price p)"
      using snoc.IH by (auto simp: separated_snoc)
    from far have "addToCluster tol q (map singleton_cluster qs) = None"
      by (simp add: addToCluster_singletons)
    with cl have "clusterStep tol ?cl q = ?cl @ [singleton_cluster q]"
      by (simp add: clusterStep_None)
    with cl show "foldl (clusterStep tol) [] (qs @ [q]) = map singleton_cluster (qs @ [q])"
      by simp
  qed
qed

subsection \<open>The round-number loop returns\<close>

lemma roundLoop_stops:
  "\<not> jle price maxPrice \<Longrightarrow> roundLoop price maxPrice step acc = Some acc"
  by (subst roundLoop.simps) simp

lemma roundLoop_finite:
  assumes "0 < s" and "m - p < real k * s"
  shows "\<exists>ys. roundLoop (Fin p) (Fin m) (Fin s) acc = Some ys"
  using assms(2)
proof (induction k arbitrary: p acc)
  case 0
  then have "\<not> jle (Fin p) (Fin m)" by (simp add: jle_def)
  then show ?case by (simp add: roundLoop_stops)
next
  case (Suc k)
  show ?case
  proof (cases "jle (Fin p) (Fin m)")
    case False then show ?thesis by (simp add: roundLoop_stops)
  next
    case True
    have "m - (p + s) < real k * s" using Suc.prems by (simp add: algebra_simps)
    from Suc.IH[OF this] obtain ys where
      "roundLoop (Fin (p + s)) (Fin m) (Fin s) (if jgt (Fin p) (Fin 0) then acc @ [Fin p] else acc) = Some ys"
      by blast
    then show ?thesis using True by (subst roundLoop.simps) simp
  qed
qed

lemma roundLoop_returns:
  assumes "0 < s"
  shows "\<exists>ys. roundLoop (Fin p) (Fin m) (Fin s) acc = Some ys"
proof -
  obtain k :: nat where "(m - p) / s < real k" using reals_Archimedean2 by blast
  then have "m - p < real k * s" using assms by (simp add: pos_divide_less_eq)
  with assms show ?thesis by (rule roundLoop_finite)
qed

lemma stepSize_cases:
  "stepSize m = Fin (1 / 100) \<or> stepSize m = Fin (1 / 10) \<or> stepSize m = Fin 1 \<or>
   stepSize m = Fin 10 \<or> stepSize m = Fin 100"
  by (simp add: stepSize_def)

lemma stepSize_pos: "\<exists>s. stepSize m = Fin s \<and> 0 < s"
proof -
  consider "stepSize m = Fin (1 / 100)" | "stepSize m = Fin (1 / 10)" | "stepSize m = Fin 1"
    | "stepSize m = Fin 10" | "stepSize m = Fin 100"
    using stepSize_cases by blast
  then show ?thesis
  proof cases
    case 1 then show ?thesis by (intro exI[of _ "1 / 100"]) simp
  next
    case 2 then show ?thesis by (intro exI[of _ "1 / 10"]) simp
  next
    case 3 then show ?thesis by (intro exI[of _ 1]) simp
  next
    case 4 then show ?thesis by (intro exI[of _ 10]) simp
  next
    case 5 then show ?thesis by (intro exI[of _ 100]) simp
  qed
qed

lemma generateRoundNumbers_returns:
  "\<exists>rs. generateRoundNumbers (fst (priceWindow c)) (snd (priceWindow c)) = Inr rs"
proof -
  obtain s where s: "stepSize (snd (priceWindow c)) = Fin s" "0 < s"
    using stepSize_pos by blast
  show ?thesis
  proof (cases c)
    case (Fin x)
    then show ?thesis
      using roundLoop_returns[OF s(2), of "real_of_int \<lfloor>(x - x * (2 / 10)) / s\<rfloor> * s" "x + x * (2 / 10)" "[]"] s
      by (auto simp: generateRoundNumbers_def priceWindow_def Let_def jsub_def)
  next
    case PInf
    then show ?thesis using s
      by (simp add: generateRoundNumbers_def priceWindow_def Let_def jsub_def roundLoop_stops jle_def)
  next
    case NInf
    then show ?thesis using s
      by (simp add: generateRoundNumbers_def priceWindow_def Let_def jsub_def roundLoop_stops jle_def)
  next
    case NaN
    then show ?thesis using s
      by (simp add: generateRoundNumbers_def priceWindow_def Let_def jsub_def roundLoop_stops jle_def)
  qed
qed

lemma findPsychologicalLevels_returns:
  assumes "data \<noteq> []"
  shows "\<exists>ls. findPsychologicalLevels data = Inr ls"
proof -
  obtain rs where "generateRoundNumbers (fst (priceWindow (c_close (last data))))
      (snd (priceWindow (c_close (last data)))) = Inr rs"
    using generateRoundNumbers_returns by blast
  then show ?thesis using assms
    by (simp add: findPsychologicalLevels_def last_close_nonempty split_beta)
qed

subsection \<open>findLevels on a series that is not empty\<close>

lemma length_calculateVolumeProfile: "length (calculateVolumeProfile data bins) = bins"
  by (simp add: calculateVolumeProfile_def Let_def)

lemma findVolumeLevels_returns: "\<exists>ls. findVolumeLevels data = Inr ls"
  by (simp add: findVolumeLevels_def Let_def length_sort_by length_calculateVolumeProfile)

lemma isRelevantLevel_nonempty:
  "data \<noteq> [] \<Longrightarrow> isRelevantLevel lvl data =
     Inr (jle (jdiv (jabs (jsub (lv_price lvl) (c_close (last data)))) (c_close (last data)))
            (Fin (15 / 100)))"
  by (simp add: isRelevantLevel_def last_close_nonempty)

lemma clusterLevel_nonempty:
  "data \<noteq> [] \<Longrightarrow> clusterLevel ty data c = Inr (levelOf ty data c)"
  by (simp add: levelOf_def clusterLevel_def isRelevantLevel_nonempty Let_def)

lemma touches_levelOf: "data \<noteq> [] \<Longrightarrow> touches (levelOf ty data c) = length (points c)"
  by (simp add: levelOf_def clusterLevel_def isRelevantLevel_nonempty Let_def)

lemma identifySupportLevels_nonempty:
  "data \<noteq> [] \<Longrightarrow> identifySupportLevels pl data =
     Inr (sort_by byStrengthDesc (map (levelOf Support data)
            (filter (\<lambda>c. minTouchCount \<le> length (points c)) (clusterPivotPoints pl))))"
  by (simp add: identifySupportLevels_def Let_def map_result_total[where g = "levelOf Support data"] clusterLevel_nonempty)

lemma identifyResistanceLevels_nonempty:
  "data \<noteq> [] \<Longrightarrow> identifyResistanceLevels ph data =
     Inr (sort_by byStrengthDesc (map (levelOf Resistance data)
            (filter (\<lambda>c. minTouchCount \<le> length (points c)) (clusterPivotPoints ph))))"
  by (simp add: identifyResistanceLevels_def Let_def map_result_total[where g = "levelOf Resistance data"] clusterLevel_nonempty)

lemma calculateLevelStrength_nonempty:
  "data \<noteq> [] \<Longrightarrow> calculateLevelStrength ls data = Inr (map (levelStrength data (c_close (last data))) ls)"
  by (simp add: calculateLevelStrength_def last_close_nonempty)

lemma findLevels_nonempty:
  assumes "data \<noteq> []"
  shows "\<exists>psych vol. findPsychologicalLevels data = Inr psych \<and> findVolumeLevels data = Inr vol \<and>
     findLevels data = Inr \<lparr>
       support = map (levelStrength data (c_close (last data)))
         (sort_by byStrengthDesc (map (levelOf Support data)
            (filter (\<lambda>c. minTouchCount \<le> length (points c)) (clusterPivotPoints (lows (findPivotPoints data)))))),
       resistance = map (levelStrength data (c_close (last data)))
         (sort_by byStrengthDesc (map (levelOf Resistance data)
            (filter (\<lambda>c. minTouchCount \<le> length (points c)) (clusterPivotPoints (highs (findPivotPoints data)))))),
       pivotPoints = findPivotPoints data,
       keyLevels = psych @ vol \<rparr>"
proof -
  obtain psych where p: "findPsychologicalLevels data = Inr psych"
    using findPsychologicalLevels_returns[OF assms] by blast
  obtain vol where v: "findVolumeLevels data = Inr vol"
    using findVolumeLevels_returns by blast
  show ?thesis using assms p v
    by (simp add: findLevels_def Let_def identifySupportLevels_nonempty identifyResistanceLevels_nonempty
        calculateLevelStrength_nonempty)
qed

lemma findLevels_empty: "findLevels [] = Inl TypeError"
  by (simp add: findLevels_def Let_def findPivotPoints_def identifySupportLevels_def identifyResistanceLevels_def
      clusterPivotPoints_def sort_by_def findPsychologicalLevels_def last_close_empty)

lemma levelStrength_keeps:
  "touches (levelStrength d p l) = touches l" "lv_type (levelStrength d p l) = lv_type l"
  by (simp_all add: levelStrength_def Let_def)

lemma lv_type_levelOf: "data \<noteq> [] \<Longrightarrow> lv_type (levelOf ty data c) = ty"
  by (simp add: levelOf_def clusterLevel_def isRelevantLevel_nonempty Let_def)

lemma psychological_touches:
  assumes "findPsychologicalLevels data = Inr ps" "l \<in> set ps"
  shows "2 \<le> touches l \<and> lv_type l = Psychological"
proof -
  from assms(1) have ne: "data \<noteq> []"
    by (auto simp: findPsychologicalLevels_def last_close_empty)
  obtain rs where rs: "generateRoundNumbers (fst (priceWindow (c_close (last data))))
      (snd (priceWindow (c_close (last data)))) = Inr rs"
    using generateRoundNumbers_returns by blast
  from assms show ?thesis
    by (auto simp: findPsychologicalLevels_def last_close_nonempty[OF ne] split_beta rs Let_def)
qed

lemma volume_levels_type:
  assumes "findVolumeLevels data = Inr vs" "l \<in> set vs"
  shows "lv_type l = Volume \<and> touches l \<le> length data"
  using assms
  by (auto simp: findVolumeLevels_def Let_def countTouches_def split: if_splits)

subsection \<open>analyze and detectPatterns\<close>



















subsection \<open>analyzeWave\<close>













subsection \<open>The sample series evaluated\<close>

lemma two_level_pivot_lows:
  "isPivotLow two_level_series 5 5" "isPivotLow two_level_series 6 5"
  "\<not> isPivotLow two_level_series 7 5" "\<not> isPivotLow two_level_series 8 5"
  "\<not> isPivotLow two_level_series 9 5" "\<not> isPivotLow two_level_series 10 5"
  "\<not> isPivotLow two_level_series 11 5" "isPivotLow two_level_series 12 5"
  "isPivotLow two_level_series 13 5" "isPivotLow two_level_series 14 5"
  by (simp_all add: isPivotLow_def window_def two_level_series_def Let_def jge_def jle_def
      mk_candle_sel)

lemma two_level_lows:
  "lows (findPivotPoints two_level_series) = points cluster_100 @ points cluster_90"
proof -
  have len: "length two_level_series = 20" by (simp add: two_level_series_def)
  have r: "[5 ..< length two_level_series - 5] = [5, 6, 7, 8, 9, 10, 11, 12, 13, 14]"
    by (simp add: len upt_rec_numeral)
  have lo: "lows (findPivotPoints two_level_series) =
      map (\<lambda>i. \<lparr> pv_index = i, pv_price = c_low (window two_level_series i 5 ! 5),
                   pv_time = c_time (window two_level_series i 5 ! 5),
                   pv_volume = c_volume (window two_level_series i 5 ! 5) \<rparr>)
        [5, 6, 12, 13, 14]"
    by (simp add: findPivotPoints_def Let_def r two_level_pivot_lows)
  show ?thesis unfolding lo
    by (simp add: window_def two_level_series_def mk_candle_sel cluster_100_def cluster_90_def)
qed

lemma two_level_clusters:
  "clusterPivotPoints (lows (findPivotPoints two_level_series)) = [cluster_100, cluster_90]"
  unfolding two_level_lows
  by (simp add: clusterPivotPoints_def clusterStep_def priceTolerancePercent_def Let_def
      jle_def jsub_def jsum_def jlen_def cluster_100_def cluster_90_def)

lemma two_level_last:
  "two_level_series \<noteq> []" "last two_level_series = mk_candle 19 105 110 90 105 1"
  by (simp_all add: two_level_series_def)

lemma two_level_recent:
  "slice_last (min 50 (length two_level_series div 5)) two_level_series =
     [mk_candle 16 105 110 90 105 1, mk_candle 17 105 110 90 105 1,
      mk_candle 18 105 110 90 105 1, mk_candle 19 105 110 90 105 1]"
  by (simp add: two_level_series_def slice_last_def)

lemma two_level_level_100: "levelOf Support two_level_series cluster_100 = level_100 0"
  by (simp add: levelOf_def clusterLevel_def isRelevantLevel_nonempty two_level_last Let_def
      isRecentLevel_def two_level_recent mk_candle_sel cluster_100_def level_100_def
      Math_min_def Math_max_def jsum_def jlen_def jle_def jsub_def)

lemma two_level_level_90: "levelOf Support two_level_series cluster_90 = level_90 0"
  by (simp add: levelOf_def clusterLevel_def isRelevantLevel_nonempty two_level_last Let_def
      isRecentLevel_def two_level_recent mk_candle_sel cluster_90_def level_90_def
      Math_min_def Math_max_def jsum_def jlen_def jle_def jsub_def)

lemma two_level_avg_volume:
  "jdiv (jsum (map c_volume two_level_series)) (jlen two_level_series) = Fin 1"
  by (simp add: two_level_series_def jsum_def jlen_def mk_candle_sel)

lemma two_level_strength_100:
  "levelStrength two_level_series (Fin 105) (level_100 0) = level_100 54"
  by (simp add: levelStrength_def two_level_avg_volume Let_def level_100_def
      volumeWeightFactor_def jsub_def)
     (simp add: jlen_def two_level_series_def)

lemma two_level_strength_90:
  "levelStrength two_level_series (Fin 105) (level_90 0) = level_90 68"
  by (simp add: levelStrength_def two_level_avg_volume Let_def level_90_def
      volumeWeightFactor_def jsub_def)
     (simp add: jlen_def two_level_series_def)

text \<open>
  The support list of the sample: the level at 100 with final strength 54, then the level
  at 90 with final strength 68.
\<close>

lemma two_level_support:
  "\<exists>r. findLevels two_level_series = Inr r \<and> support r = [level_100 54, level_90 68]"
proof -
  have srt: "sort_by byStrengthDesc [level_100 0, level_90 0] = [level_100 0, level_90 0]"
    by (simp add: sort_by_def byStrengthDesc_def level_100_def level_90_def jsub_def)
  have flt: "filter (\<lambda>c. minTouchCount \<le> length (points c)) [cluster_100, cluster_90] =
      [cluster_100, cluster_90]"
    by (simp add: minTouchCount_def cluster_100_def cluster_90_def)
  from findLevels_nonempty[OF two_level_last(1)] obtain r where
    r: "findLevels two_level_series = Inr r" and
    sup: "support r = map (levelStrength two_level_series (c_close (last two_level_series)))
         (sort_by byStrengthDesc (map (levelOf Support two_level_series)
            (filter (\<lambda>c. minTouchCount \<le> length (points c))
               (clusterPivotPoints (lows (findPivotPoints two_level_series))))))"
    by auto
  have "support r = map (levelStrength two_level_series (Fin 105))
      (sort_by byStrengthDesc [level_100 0, level_90 0])"
    using sup unfolding two_level_clusters flt
    by (simp add: two_level_level_100 two_level_level_90 two_level_last mk_candle_sel)
  then have "support r = [level_100 54, level_90 68]"
    unfolding srt by (simp add: two_level_strength_100 two_level_strength_90)
  with r show ?thesis by blast
qed

lemma single_candle_binVolume: "binVolume single_candle (Fin lo) (Fin hi) \<noteq> NaN"
  by (simp add: binVolume_def single_candle_def mk_candle_sel Let_def jsub_def jgt_def)

lemma single_candle_profile:
  assumes "n \<in> set (calculateVolumeProfile single_candle 50)"
  shows "vn_volume n \<noteq> NaN"
proof -
  have b: "Math_max (map c_high single_candle) = Fin 200"
    "Math_min (map c_low single_candle) = Fin 100"
    by (simp_all add: single_candle_def Math_max_def Math_min_def mk_candle_sel)
  from assms obtain i where
    "vn_volume n = binVolume single_candle (Fin (100 + real i * 2)) (Fin (100 + real i * 2 + 2))"
    by (auto simp: calculateVolumeProfile_def b jsub_def Let_def)
  then show ?thesis by (simp add: single_candle_binVolume)
qed

text \<open>
  On a series of one candle some volume level is returned, and no level can have more
  than one touch.
\<close>

lemma single_candle_volume_levels:
  "\<exists>vs. findVolumeLevels single_candle = Inr vs \<and> vs \<noteq> [] \<and> (\<forall>l \<in> set vs. touches l \<le> 1)"
proof -
  let ?profile = "calculateVolumeProfile single_candle 50"
  let ?sorted = "sort_by byVolumeDesc ?profile"
  have len: "length ?sorted = 50" by (simp add: length_sort_by length_calculateVolumeProfile)
  have mem: "?sorted ! 5 \<in> set ?profile"
    by (rule sort_by_nth_mem) (simp add: length_calculateVolumeProfile)
  then have "jge (vn_volume (?sorted ! 5)) (vn_volume (?sorted ! 5))"
    by (intro jge_refl single_candle_profile)
  with mem have ne: "filter (\<lambda>node. jge (vn_volume node) (vn_volume (?sorted ! 5))) ?profile \<noteq> []"
    by (auto simp: filter_empty_conv)
  obtain vs where vs: "findVolumeLevels single_candle = Inr vs"
    using findVolumeLevels_returns by blast
  have "vs \<noteq> []" using vs ne len by (auto simp: findVolumeLevels_def Let_def)
  moreover have "\<forall>l \<in> set vs. touches l \<le> 1"
    using volume_levels_type[OF vs] by (simp add: single_candle_def)
  ultimately show ?thesis using vs by blast
qed

lemma straddle_blocks: "findOrderBlocks straddle_series = [bullish_block False]"
  by (simp add: findOrderBlocks_def straddle_series_def Let_def upt_rec_numeral
      isBullishOrderBlock_def isBearishOrderBlock_def mk_candle_sel jsum_def jlen_def jgt_def
      jsub_def calculateOrderBlockStrength_def markTestedOrderBlocks_def testsOrderBlock_def
      bullish_block_def jle_def jge_def)

lemma revisit_blocks: "findOrderBlocks revisit_series = [bullish_block True]"
  by (simp add: findOrderBlocks_def revisit_series_def Let_def upt_rec_numeral
      isBullishOrderBlock_def isBearishOrderBlock_def mk_candle_sel jsum_def jlen_def jgt_def
      jsub_def calculateOrderBlockStrength_def markTestedOrderBlocks_def testsOrderBlock_def
      bullish_block_def jle_def jge_def)

lemma flat_eleven_swings:
  "identifySwingPoints flat_eleven = [mk_swing 5 High 110, mk_swing 5 Low 100]"
  by (simp add: identifySwingPoints_def flat_eleven_def window_def Let_def Math_max_def
      Math_min_def mk_candle_sel filterSignificantSwings_def filterStep_def jge_def jle_def
      jsub_def mk_swing_def)

lemma filterStep_alternates:
  assumes "distinct_adj (map sw_type filtered)"
  shows "distinct_adj (map sw_type (filterStep filtered current))"
proof (cases "filtered = []")
  case True
  then show ?thesis by (simp add: filterStep_def)
next
  case False
  then have split: "filtered = butlast filtered @ [last filtered]" by simp
  have keep: "map sw_type (butlast filtered @ [current]) = map sw_type filtered"
    if "sw_type current = sw_type (last filtered)"
  proof -
    from that have "map sw_type (butlast filtered @ [current]) =
        map sw_type (butlast filtered @ [last filtered])"
      by simp
    then show ?thesis using split by simp
  qed
  have push: "distinct_adj (map sw_type (filtered @ [current]))"
    if "sw_type current \<noteq> sw_type (last filtered)"
    using that assms False by (simp add: distinct_adj_append_iff last_map)
  show ?thesis using False assms keep push
    by (auto simp: filterStep_def Let_def)
qed

section \<open>Claims\<close>

subsection \<open>C1: re-clustering the cluster means\<close>

text \<open>
  C1, as the code has it. Let \<open>means\<close> hold one pivot per cluster of
  \<open>clusterPivotPoints pivots\<close>, priced at the cluster's mean. Clustering \<open>means\<close> gives
  singleton clusters with the same means exactly when no cluster mean of the first pass
  lies within the tolerance of an earlier cluster's mean. The greedy pass does not
  establish that separation: a cluster's mean moves when a pivot joins it.
\<close>

theorem recluster_same_iff_separated:
  assumes "map pv_price means = map avgPrice (clusterPivotPoints pivots)"
  shows "reclusteredSame pivots means \<longleftrightarrow>
         separated (jdiv priceTolerancePercent (Fin 100)) (map avgPrice (clusterPivotPoints pivots))"
proof -
  let ?tol = "jdiv priceTolerancePercent (Fin 100)"
  have second: "clusterPivotPoints means = foldl (clusterStep ?tol) [] means"
    by (simp add: clusterPivotPoints_def Let_def)
  show ?thesis
  proof
    assume same: "reclusteredSame pivots means"
    then have "length (map avgPrice (clusterPivotPoints means)) = length (map pv_price means)"
      using assms by (simp add: reclusteredSame_def)
    then have "length (foldl (clusterStep ?tol) [] means) = length means"
      by (simp add: second)
    then have "foldl (clusterStep ?tol) [] means = map singleton_cluster means"
      by (rule cluster_full_length)
    then have "separated ?tol (map pv_price means)"
      by (simp add: cluster_singletons_iff)
    then show "separated ?tol (map avgPrice (clusterPivotPoints pivots))"
      using assms by simp
  next
    assume "separated ?tol (map avgPrice (clusterPivotPoints pivots))"
    then have "separated ?tol (map pv_price means)" using assms by simp
    then have "clusterPivotPoints means = map singleton_cluster means"
      by (simp add: second cluster_singletons_iff)
    then show "reclusteredSame pivots means"
      using assms by (simp add: reclusteredSame_def singleton_cluster_def list_all_iff comp_def)
  qed
qed

text \<open>
  Witness for C1: the pivots at 100 and 100.6 form two clusters whose means are more than
  0.5 percent apart, and clustering the two means gives them back.
\<close>

theorem recluster_same_iff_separated_witness:
  "map pv_price apart_means = map avgPrice (clusterPivotPoints apart_pivots) \<and>
   reclusteredSame apart_pivots apart_means"
proof -
  have first: "map avgPrice (clusterPivotPoints apart_pivots) = [Fin 100, Fin (1006 / 10)]"
    by (simp add: clusterPivotPoints_def clusterStep_def apart_pivots_def mk_pivot_def
        priceTolerancePercent_def Let_def jle_def jsub_def)
  have h: "map pv_price apart_means = map avgPrice (clusterPivotPoints apart_pivots)"
    by (simp add: first apart_means_def mk_pivot_def)
  have "separated (jdiv priceTolerancePercent (Fin 100))
          (map avgPrice (clusterPivotPoints apart_pivots))"
    by (simp add: first priceTolerancePercent_def withinTolerance_def jle_def jsub_def)
  with recluster_same_iff_separated[OF h] h show ?thesis by simp
qed

text \<open>
  Counterexample to C1 as stated: the pivots at 100, 100.6 and 100.4 cluster to the means
  100.2 and 100.6, and clustering these two means merges them into one cluster.
\<close>

theorem recluster_merges_close_means:
  "map pv_price greedy_means = map avgPrice (clusterPivotPoints greedy_pivots) \<and>
   length (clusterPivotPoints greedy_means) = 1 \<and>
   \<not> reclusteredSame greedy_pivots greedy_means"
proof -
  have first: "map avgPrice (clusterPivotPoints greedy_pivots) = [Fin (1002 / 10), Fin (1006 / 10)]"
    by (simp add: clusterPivotPoints_def clusterStep_def greedy_pivots_def mk_pivot_def
        priceTolerancePercent_def Let_def jle_def jsub_def jsum_def jlen_def)
  have second: "map avgPrice (clusterPivotPoints greedy_means) = [Fin (1004 / 10)]"
    by (simp add: clusterPivotPoints_def clusterStep_def greedy_means_def mk_pivot_def
        priceTolerancePercent_def Let_def jle_def jsub_def jsum_def jlen_def)
  have "length (map avgPrice (clusterPivotPoints greedy_means)) = 1"
    unfolding second by simp
  then have one: "length (clusterPivotPoints greedy_means) = 1" by simp
  have h: "map pv_price greedy_means = [Fin (1002 / 10), Fin (1006 / 10)]"
    by (simp add: greedy_means_def mk_pivot_def)
  have "\<not> reclusteredSame greedy_pivots greedy_means"
    by (simp add: reclusteredSame_def first second)
  with one h first show ?thesis by simp
qed

subsection \<open>C2: series shorter than a window\<close>

text \<open>
  C2. A series with fewer than \<open>2 * 5 + 1\<close> candles has no pivots and no swings:
  \<open>findPivotPoints\<close> returns empty \<open>highs\<close> and \<open>lows\<close>, and \<open>findSwingHighs\<close>,
  \<open>findSwingLows\<close> (lookback 5) and \<open>identifySwingPoints\<close> return the empty list.
\<close>

theorem short_series_no_pivots_no_swings:
  assumes "length data < 2 * 5 + 1"
  shows "findPivotPoints data = \<lparr> highs = [], lows = [] \<rparr> \<and>
         findSwingHighs data 5 = [] \<and> findSwingLows data 5 = [] \<and>
         identifySwingPoints data = []"
proof -
  have r: "[5 ..< length data - 5] = []" using assms by simp
  show ?thesis
    by (simp add: findPivotPoints_def findSwingHighs_def findSwingLows_def
        identifySwingPoints_def filterSignificantSwings_def r)
qed

text \<open>Witness for C2: the series of ten candles.\<close>

theorem short_series_no_pivots_no_swings_witness:
  "length short_series < 2 * 5 + 1 \<and>
   findPivotPoints short_series = \<lparr> highs = [], lows = [] \<rparr> \<and>
   findSwingHighs short_series 5 = [] \<and> findSwingLows short_series 5 = [] \<and>
   identifySwingPoints short_series = []"
proof -
  have h: "length short_series < 2 * 5 + 1" by (simp add: short_series_def)
  from short_series_no_pivots_no_swings[OF h] h show ?thesis by simp
qed

subsection \<open>C3: touches of the levels\<close>

text \<open>
  C3, as the code has it. Every level returned by \<open>findLevels\<close> other than a volume level
  (the support and resistance levels and the psychological levels among the key levels)
  has at least \<open>minTouchCount\<close> touches. Volume levels are chosen by the volume of their
  bin and carry whatever touch count they have.
\<close>

theorem levels_other_than_volume_have_min_touches:
  assumes "findLevels data = Inr r"
      and "l \<in> set (support r) \<union> set (resistance r) \<union> set (keyLevels r)"
      and "lv_type l \<noteq> Volume"
  shows "minTouchCount \<le> touches l"
proof -
  from assms(1) have ne: "data \<noteq> []" using findLevels_empty by auto
  from findLevels_nonempty[OF ne] assms(1) obtain psych vol where
    p: "findPsychologicalLevels data = Inr psych" and
    v: "findVolumeLevels data = Inr vol" and
    s: "support r = map (levelStrength data (c_close (last data)))
         (sort_by byStrengthDesc (map (levelOf Support data)
            (filter (\<lambda>c. minTouchCount \<le> length (points c))
               (clusterPivotPoints (lows (findPivotPoints data))))))" and
    rs: "resistance r = map (levelStrength data (c_close (last data)))
         (sort_by byStrengthDesc (map (levelOf Resistance data)
            (filter (\<lambda>c. minTouchCount \<le> length (points c))
               (clusterPivotPoints (highs (findPivotPoints data))))))" and
    k: "keyLevels r = psych @ vol"
    by auto
  from assms(2) consider "l \<in> set (support r)" | "l \<in> set (resistance r)"
    | "l \<in> set psych" | "l \<in> set vol"
    using k by auto
  then show ?thesis
  proof cases
    case 1
    then show ?thesis using ne
      by (auto simp: s set_sort_by levelStrength_keeps touches_levelOf)
  next
    case 2
    then show ?thesis using ne
      by (auto simp: rs set_sort_by levelStrength_keeps touches_levelOf)
  next
    case 3
    then show ?thesis using psychological_touches[OF p] by (simp add: minTouchCount_def)
  next
    case 4
    then show ?thesis using volume_levels_type[OF v] assms(3) by simp
  qed
qed

text \<open>
  Witness for C3: the support level at 100 of the twenty-candle sample, built from the
  two pivot lows at indices 5 and 6.
\<close>

theorem levels_other_than_volume_have_min_touches_witness:
  "\<not> isl (findLevels two_level_series) \<and>
   level_100 54 \<in> set (support (projr (findLevels two_level_series))) \<and>
   lv_type (level_100 54) \<noteq> Volume \<and>
   minTouchCount \<le> touches (level_100 54)"
proof -
  obtain r where r: "findLevels two_level_series = Inr r"
    and sup: "support r = [level_100 54, level_90 68]"
    using two_level_support by blast
  have m: "level_100 54 \<in> set (support r) \<union> set (resistance r) \<union> set (keyLevels r)"
    by (simp add: sup)
  have t: "lv_type (level_100 54) \<noteq> Volume" by (simp add: level_100_def)
  from levels_other_than_volume_have_min_touches[OF r m t] r sup t show ?thesis by simp
qed

text \<open>
  Counterexample to C3 as stated: on the series of one candle, \<open>findLevels\<close> returns key
  levels, and one of them (a volume level) has fewer than \<open>minTouchCount\<close> touches.
\<close>

theorem volume_level_below_min_touches:
  "\<not> isl (findLevels single_candle) \<and>
   list_ex belowMinTouch (keyLevels (projr (findLevels single_candle)))"
proof -
  have ne: "single_candle \<noteq> []" by (simp add: single_candle_def)
  obtain vs where vs: "findVolumeLevels single_candle = Inr vs" "vs \<noteq> []"
    "\<forall>l \<in> set vs. touches l \<le> 1"
    using single_candle_volume_levels by blast
  from findLevels_nonempty[OF ne] vs(1) obtain r psych where
    r: "findLevels single_candle = Inr r" "keyLevels r = psych @ vs" by auto
  from vs(2) obtain l where "l \<in> set vs" by (cases vs) auto
  with vs(3) have "l \<in> set (keyLevels r)" "belowMinTouch l"
    by (auto simp: r(2) belowMinTouch_def minTouchCount_def)
  then have "list_ex belowMinTouch (keyLevels r)" by (auto simp: list_ex_iff)
  with r(1) show ?thesis by simp
qed

subsection \<open>C4: order of the support and resistance lists\<close>

text \<open>
  C4 fails on the code. \<open>identifySupportLevels\<close> sorts by strength while every strength
  is still 0, and \<open>calculateLevelStrength\<close> assigns the final strengths without sorting
  again. On the twenty-candle sample the support list is returned in cluster order with
  the final strengths 54 and 68, which is not descending.
\<close>

theorem support_not_sorted_by_final_strength:
  "\<not> isl (findLevels two_level_series) \<and>
   map strength (support (projr (findLevels two_level_series))) = [Fin 54, Fin 68] \<and>
   \<not> sortedByStrengthDesc (support (projr (findLevels two_level_series)))"
proof -
  obtain r where r: "findLevels two_level_series = Inr r"
    and sup: "support r = [level_100 54, level_90 68]"
    using two_level_support by blast
  show ?thesis
    by (simp add: r sup sortedByStrengthDesc_def level_100_def level_90_def jge_def jle_def)
qed

subsection \<open>C5: the wave 3 bonus\<close>

text \<open>
  C5 fails on the code. The +20 of the second rule is given when wave 3 is at least as
  long as wave 1 and as wave 5, that is when it is the longest. On the window at 100,
  150, 120, 160, 150 the lengths are 50, 40 and -10: wave 3 is not the shortest, and the
  rule gives nothing (the score is 15 + 15 and the line of the rule is absent).
\<close>

theorem wave3_bonus_withheld_when_not_shortest:
  "waveLengths impulse_window Bullish = (Fin 50, Fin 40, Fin (- 10)) \<and>
   wave3NotShortest (waveLengths impulse_window Bullish) \<and>
   validateElliottRules impulse_window Bullish =
     Inr (30, [''Wave 2 retracement valid'', ''Wave 4 does not overlap wave 1''])"
  by (simp add: validateElliottRules_def waveLengths_def wave3NotShortest_def impulse_window_def
      mk_swing_def Let_def jgt_def jge_def jle_def jsub_def)

subsection \<open>C6: faults of the entry points\<close>




subsection \<open>C7: tested order blocks\<close>

text \<open>
  C7, as the code has it. A block returned by \<open>findOrderBlocks\<close> is marked tested exactly
  when some candle after the block's index has its low inside the band of the block, for
  a bullish block, or its high inside the band, for a bearish block.
\<close>

theorem tested_iff_extreme_inside_band:
  assumes "ob \<in> set (findOrderBlocks data)"
  shows "tested ob \<longleftrightarrow>
         (\<exists>i. ob_index ob < i \<and> i < length data \<and>
              (if ob_type ob = Bullish
               then jle (c_low (data ! i)) (ob_high ob) \<and> jge (c_low (data ! i)) (ob_low ob)
               else jge (c_high (data ! i)) (ob_low ob) \<and> jle (c_high (data ! i)) (ob_high ob)))"
proof -
  from assms obtain ob' where
    ob: "ob = ob'\<lparr> tested := list_ex (testsOrderBlock ob') (drop (ob_index ob' + 1) data) \<rparr>"
    by (auto simp: findOrderBlocks_def markTestedOrderBlocks_def Let_def)
  have "tested ob \<longleftrightarrow>
      (\<exists>i. ob_index ob' + 1 \<le> i \<and> i < length data \<and> testsOrderBlock ob' (data ! i))"
    by (simp add: ob list_ex_drop)
  then show ?thesis by (simp add: ob testsOrderBlock_def Suc_le_eq)
qed

text \<open>
  Witness for C7: in the second three-candle series the block at index 1 is tested by the
  candle at index 2, whose low is 105.
\<close>

theorem tested_iff_extreme_inside_band_witness:
  "bullish_block True \<in> set (findOrderBlocks revisit_series) \<and>
   tested (bullish_block True) \<and>
   jle (c_low (revisit_series ! 2)) (ob_high (bullish_block True)) \<and>
   jge (c_low (revisit_series ! 2)) (ob_low (bullish_block True))"
proof -
  have h: "bullish_block True \<in> set (findOrderBlocks revisit_series)"
    by (simp add: revisit_blocks)
  have "tested (bullish_block True)" by (simp add: bullish_block_def)
  with tested_iff_extreme_inside_band[OF h] obtain i where
    i: "ob_index (bullish_block True) < i" "i < length revisit_series"
       "jle (c_low (revisit_series ! i)) (ob_high (bullish_block True)) \<and>
        jge (c_low (revisit_series ! i)) (ob_low (bullish_block True))"
    by (auto simp: bullish_block_def)
  from i(1,2) have "i = 2" by (simp add: bullish_block_def revisit_series_def)
  with i(3) h show ?thesis by (simp add: bullish_block_def)
qed

text \<open>
  Counterexample to C7 as stated: in the first three-candle series the candle at index 2
  ranges from 90 to 120, across the whole band from 100 to 110 of the block at index 1,
  and the block is returned untested, because the low of that candle is below the band.
\<close>

theorem straddling_candle_leaves_block_untested:
  "findOrderBlocks straddle_series = [bullish_block False] \<and>
   \<not> tested (bullish_block False) \<and>
   list_ex (priceRevisits (bullish_block False))
     (drop (ob_index (bullish_block False) + 1) straddle_series)"
  by (simp add: straddle_blocks)
     (simp add: bullish_block_def straddle_series_def priceRevisits_def mk_candle_sel
        jle_def jge_def)

subsection \<open>C8: the round-number step\<close>



subsection \<open>C9: fewer than five significant swings\<close>

text \<open>
  C9. When the list of significant swings has fewer than five entries, \<open>analyzeWave\<close>
  returns a result with \<open>isValid = false\<close>, confidence 0, and \<open>null\<close> for \<open>currentWave\<close>
  and \<open>waveStructure\<close>.
\<close>

theorem few_swings_give_invalid_wave:
  assumes "length (identifySwingPoints ohlcData) < 5"
  shows "analyzeWave ohlcData =
           Inr \<lparr> isValid = False, currentWave = None, wa_confidence = Fin 0,
                 waveStructure = None, wa_projections = None \<rparr>"
  using assms by (simp add: analyzeWave_def)

text \<open>Witness for C9: the eleven equal candles have two significant swings.\<close>

theorem few_swings_give_invalid_wave_witness:
  "length (identifySwingPoints flat_eleven) < 5 \<and>
   analyzeWave flat_eleven =
     Inr \<lparr> isValid = False, currentWave = None, wa_confidence = Fin 0,
           waveStructure = None, wa_projections = None \<rparr>"
proof -
  have h: "length (identifySwingPoints flat_eleven) < 5" by (simp add: flat_eleven_swings)
  from few_swings_give_invalid_wave[OF h] h show ?thesis by simp
qed

subsection \<open>C10: the significant swings alternate\<close>

text \<open>
  C10. In the output of \<open>filterSignificantSwings\<close> no two consecutive swings have the
  same kind, whatever the input list.
\<close>

theorem significant_swings_alternate:
  "distinct_adj (map sw_type (filterSignificantSwings swings))"
proof -
  have "distinct_adj (map sw_type (foldl filterStep acc swings))"
    if "distinct_adj (map sw_type acc)" for acc
    using that by (induction swings arbitrary: acc) (simp_all add: filterStep_alternates)
  then show ?thesis by (simp add: filterSignificantSwings_def)
qed

text \<open>Instance of C10 on the five-swing window.\<close>

theorem significant_swings_alternate_witness:
  "distinct_adj (map sw_type (filterSignificantSwings impulse_window))"
  using significant_swings_alternate[of impulse_window] .

end
